theory Spec2Isabelle
  imports Complex_Main "HOL-Library.Log_Nat"
begin

section \<open>JavaScript numbers\<close>

text \<open>
  Every number of the renderer is an ECMAScript Number: an IEEE 754 binary64 value.
  A finite non-zero value is kept as the rational it denotes, the two zeros are
  \<open>Fin 0\<close> and \<open>NegZero\<close>, and the three special values are constructors of their own.
  Each arithmetic operation computes the exact rational result and rounds it once, to
  nearest with ties to even, as the standard prescribes.
\<close>

datatype number = Fin rat | NegZero | PosInf | NegInf | NaN

definition pow2 :: "int \<Rightarrow> rat" where
  "pow2 e = (if 0 \<le> e then 2 ^ nat e else 1 / 2 ^ nat (- e))"

text \<open>The binade of a non-zero rational: \<open>pow2 (ilog2 r) \<le> \<bar>r\<bar> < pow2 (ilog2 r + 1)\<close>.\<close>

definition ilog2 :: "rat \<Rightarrow> int" where
  "ilog2 r = (let (a, b) = quotient_of \<bar>r\<bar>; d = bitlen a - bitlen b
              in if of_int b * pow2 d \<le> of_int a then d else d - 1)"

definition round_half_even :: "rat \<Rightarrow> int" where
  "round_half_even r =
     (let f = \<lfloor>r\<rfloor>; d = r - of_int f
      in if d < 1 / 2 then f else if 1 / 2 < d then f + 1 else if even f then f else f + 1)"

definition signed_zero :: "bool \<Rightarrow> number" where
  "signed_zero s = (if s then NegZero else Fin 0)"

definition signed_inf :: "bool \<Rightarrow> number" where
  "signed_inf s = (if s then NegInf else PosInf)"

text \<open>
  Rounding of an exact result to binary64: 53 significant bits in the normal range,
  multiples of \<open>pow2 (- 1074)\<close> in the subnormal range, overflow to an infinity
  (the rounded significand reaches \<open>2 ^ 53\<close> in the top binade, or the binade is
  beyond it), underflow to a zero of the result's sign.
\<close>

definition fl :: "rat \<Rightarrow> number" where
  "fl r =
     (if r = 0 then Fin 0
      else let e = max (ilog2 r) (- 1022);
               u = pow2 (e - 52);
               n = round_half_even (r / u)
           in if 1023 < e \<or> (e = 1023 \<and> 2 ^ 53 \<le> \<bar>n\<bar>) then signed_inf (r < 0)
              else if n = 0 then signed_zero (r < 0)
              else Fin (of_int n * u))"

text \<open>The value of a finite number (both zeros are 0), and the sign bit.\<close>

fun finite_val :: "number \<Rightarrow> rat option" where
  "finite_val (Fin q) = Some q"
| "finite_val NegZero = Some 0"
| "finite_val _ = None"

fun sign_bit :: "number \<Rightarrow> bool" where
  "sign_bit (Fin q) = (q < 0)"
| "sign_bit NegZero = True"
| "sign_bit NegInf = True"
| "sign_bit _ = False"

fun is_zero :: "number \<Rightarrow> bool" where
  "is_zero (Fin q) = (q = 0)"
| "is_zero NegZero = True"
| "is_zero _ = False"

fun is_inf :: "number \<Rightarrow> bool" where
  "is_inf PosInf = True"
| "is_inf NegInf = True"
| "is_inf _ = False"

text \<open>Unary minus flips the sign bit.\<close>

fun js_neg :: "number \<Rightarrow> number" where
  "js_neg (Fin q) = (if q = 0 then NegZero else Fin (- q))"
| "js_neg NegZero = Fin 0"
| "js_neg PosInf = NegInf"
| "js_neg NegInf = PosInf"
| "js_neg NaN = NaN"

definition js_add :: "number \<Rightarrow> number \<Rightarrow> number" where
  "js_add a b =
     (if a = NaN \<or> b = NaN then NaN
      else if is_inf a \<and> is_inf b then (if a = b then a else NaN)
      else if is_inf a then a
      else if is_inf b then b
      else let r = the (finite_val a) + the (finite_val b)
           in if r = 0 then signed_zero (sign_bit a \<and> sign_bit b) else fl r)"

definition js_sub :: "number \<Rightarrow> number \<Rightarrow> number" where
  "js_sub a b = js_add a (js_neg b)"

definition js_mul :: "number \<Rightarrow> number \<Rightarrow> number" where
  "js_mul a b =
     (let s = (sign_bit a \<noteq> sign_bit b)
      in if a = NaN \<or> b = NaN then NaN
         else if is_inf a \<or> is_inf b then (if is_zero a \<or> is_zero b then NaN else signed_inf s)
         else let r = the (finite_val a) * the (finite_val b)
              in if r = 0 then signed_zero s else fl r)"

definition js_div :: "number \<Rightarrow> number \<Rightarrow> number" where
  "js_div a b =
     (let s = (sign_bit a \<noteq> sign_bit b)
      in if a = NaN \<or> b = NaN then NaN
         else if is_inf a then (if is_inf b then NaN else signed_inf s)
         else if is_inf b then signed_zero s
         else if is_zero b then (if is_zero a then NaN else signed_inf s)
         else if is_zero a then signed_zero s
         else fl (the (finite_val a) / the (finite_val b)))"

text \<open>
  \<open>Math.round\<close>: the nearest integer, a tie going towards \<open>+\<infinity>\<close>; the result is exact,
  and it is the negative zero for an argument in \<open>[-1/2, 0)\<close> and for \<open>-0\<close>.
\<close>

fun Math_round :: "number \<Rightarrow> number" where
  "Math_round (Fin q) =
     (let n = \<lfloor>q + 1 / 2\<rfloor> in if n = 0 then signed_zero (q < 0) else Fin (of_int n))"
| "Math_round x = x"

text \<open>
  \<open>Math.sqrt\<close>, correctly rounded. The square root of a binary64 value is never
  subnormal and never overflows; \<open>isqrt\<close> is the integer square root, bit by bit.
\<close>

fun isqrt_bits :: "nat \<Rightarrow> int \<Rightarrow> int \<Rightarrow> int" where
  "isqrt_bits 0 n r = r"
| "isqrt_bits (Suc i) n r =
     (let r' = r + 2 ^ i in isqrt_bits i n (if r' * r' \<le> n then r' else r))"

definition fl_sqrt :: "rat \<Rightarrow> number" where
  "fl_sqrt q =
     (let e = ilog2 q div 2;
          u = pow2 (e - 52);
          m = isqrt_bits 53 \<lfloor>q / (u * u)\<rfloor> 0;
          h = (of_int m + 1 / 2) * u
      in if q < h * h then Fin (of_int m * u)
         else if h * h < q then Fin (of_int (m + 1) * u)
         else Fin (of_int (if even m then m else m + 1) * u))"

fun Math_sqrt :: "number \<Rightarrow> number" where
  "Math_sqrt (Fin q) = (if q < 0 then NaN else if q = 0 then Fin 0 else fl_sqrt q)"
| "Math_sqrt NegZero = NegZero"
| "Math_sqrt PosInf = PosInf"
| "Math_sqrt _ = NaN"

text \<open>
  Comparisons. \<open>NaN\<close> compares false with everything, itself included; the two zeros
  are equal. \<open>===\<close> and \<open>==\<close> coincide on two numbers.
\<close>

fun ext_val :: "number \<Rightarrow> (int \<times> rat) option" where
  "ext_val NaN = None"
| "ext_val NegInf = Some (- 1, 0)"
| "ext_val PosInf = Some (1, 0)"
| "ext_val NegZero = Some (0, 0)"
| "ext_val (Fin q) = Some (0, q)"

definition js_eq :: "number \<Rightarrow> number \<Rightarrow> bool" where
  "js_eq a b = (a \<noteq> NaN \<and> b \<noteq> NaN \<and> ext_val a = ext_val b)"

definition js_lt :: "number \<Rightarrow> number \<Rightarrow> bool" where
  "js_lt a b =
     (case (ext_val a, ext_val b) of
        (Some (i, p), Some (j, q)) \<Rightarrow> i < j \<or> (i = j \<and> p < q)
      | _ \<Rightarrow> False)"

definition js_le :: "number \<Rightarrow> number \<Rightarrow> bool" where
  "js_le a b = (js_lt a b \<or> js_eq a b)"

text \<open>Truthiness of a number in a condition: \<open>0\<close>, \<open>-0\<close> and \<open>NaN\<close> are falsy.\<close>

definition truthy :: "number \<Rightarrow> bool" where
  "truthy a = (\<not> is_zero a \<and> a \<noteq> NaN)"

text \<open>A decimal literal of the source denotes the nearest binary64 value.\<close>

definition lit :: "rat \<Rightarrow> number" where
  "lit q = fl q"

text \<open>
  Tile coordinates are integers held in Numbers; \<open>num_of_int\<close> is the Number an
  integer is held in (exact up to \<open>2 ^ 53\<close> in magnitude).
\<close>

definition num_of_int :: "int \<Rightarrow> number" where
  "num_of_int k = fl (of_int k)"

section \<open>Tiles, layer and source\<close>

text \<open>
  Modelled from the spec: \<open>TileState.js\<close> is not among the sources; the spec's data
  model lists the five lifecycle states of a tile.
\<close>

datatype TileState = IDLE | LOADING | LOADED | ERROR | EMPTY

text \<open>
  A tile coordinate is the array \<open>[z, x, y]\<close>. Tiles are objects shared by reference
  between the source, the renderer and the frames: a \<open>tid\<close> is such a reference, and
  the tiles themselves live in a store. \<open>uid\<close> is the identity \<open>getUid\<close> gives a
  renderer.
\<close>

type_synonym TileCoord = "nat \<times> int \<times> int"
type_synonym tid = nat
type_synonym uid = nat
type_synonym Projection = string
type_synonym Extent = "number \<times> number \<times> number \<times> number"
type_synonym Coordinate = "number \<times> number"
type_synonym Transform = "number list"

record Image =
  image_width :: number
  image_height :: number

text \<open>
  Modelled from the spec: \<open>Tile.js\<close> is not among the sources. The spec's data model
  gives a tile its coordinate, its lifecycle state, an optional reference to an interim
  tile, a transition-start timestamp per consumer identity and the decoded image once
  loaded; ending a transition clears the consumer's timestamp.
\<close>

record Tile =
  tileCoord :: TileCoord
  state :: TileState
  interimTile :: "tid option"
  transitionStarts :: "uid \<Rightarrow> number option"
  image :: "Image option"

definition getState :: "Tile \<Rightarrow> TileState" where
  "getState t = state t"

definition setState :: "TileState \<Rightarrow> Tile \<Rightarrow> Tile" where
  "setState st t = t\<lparr>state := st\<rparr>"

definition getImage :: "Tile \<Rightarrow> Image option" where
  "getImage t = image t"

definition endTransition :: "uid \<Rightarrow> Tile \<Rightarrow> Tile" where
  "endTransition u t = t\<lparr>transitionStarts := (transitionStarts t)(u := None)\<rparr>"

text \<open>An inclusive range of tile coordinates at one zoom level (\<open>TileRange.js\<close>).\<close>

record TileRange =
  minX :: int
  maxX :: int
  minY :: int
  maxY :: int

text \<open>
  \<open>tilesToDrawByZ\<close>: an object keyed by zoom level whose values are objects keyed by
  \<open>tileCoord.toString()\<close>. The inner keys are strings that are no array indices, so
  \<open>for ... in\<close> visits them in insertion order: an association list, where writing an
  existing key keeps its place and a new key goes last. The key is the coordinate
  itself, \<open>toString\<close> being injective on integer triples.
\<close>

type_synonym TilesByCoord = "(TileCoord \<times> tid) list"
type_synonym TilesByZ = "(nat \<times> TilesByCoord) list"

fun obj_put :: "'k \<Rightarrow> 'v \<Rightarrow> ('k \<times> 'v) list \<Rightarrow> ('k \<times> 'v) list" where
  "obj_put k v [] = [(k, v)]"
| "obj_put k v (p # ps) = (if fst p = k then (k, v) # ps else p # obj_put k v ps)"

fun obj_get :: "'k \<Rightarrow> ('k \<times> 'v) list \<Rightarrow> 'v option" where
  "obj_get k [] = None"
| "obj_get k (p # ps) = (if fst p = k then Some (snd p) else obj_get k ps)"

text \<open>
  The collaborators the renderer consumes are not among the sources; each is a record
  of the operations the renderer calls, taken as parameters. The temporary objects
  \<open>tmpTileRange\<close> and \<open>tmpExtent\<close>, which the grid fills and returns, are left out:
  the operations return their results as values.

  \<open>findLoadedTiles\<close> (made by \<open>createLoadedTileFinder\<close>) reads the tiles and registers
  the loaded ones of a range in \<open>tilesToDrawByZ\<close>; its result says whether the range is
  fully covered. \<open>forEachTileCoordParentTileRange\<close> calls its callback on the ancestor
  levels of a coordinate.
\<close>

text \<open>
  Zoom levels and the source's revision counter are non-negative integers held in
  Numbers; they are natural numbers here.
\<close>

type_synonym LoadedTileFinder = "nat \<Rightarrow> TileRange \<Rightarrow> TilesByZ \<Rightarrow> bool \<times> TilesByZ"

record TileGrid =
  getZForResolution :: "number \<Rightarrow> number \<Rightarrow> nat"
  getResolution :: "nat \<Rightarrow> number"
  getTileRangeForExtentAndZ :: "Extent \<Rightarrow> nat \<Rightarrow> TileRange"
  getTileCoordForCoordAndZ :: "Coordinate \<Rightarrow> nat \<Rightarrow> TileCoord"
  getTileCoordExtent :: "TileCoord \<Rightarrow> Extent"
  getTileCoordChildTileRange :: "TileCoord \<Rightarrow> TileRange option"
  forEachTileCoordParentTileRange :: "TileCoord \<Rightarrow> LoadedTileFinder \<Rightarrow> TilesByZ \<Rightarrow> bool \<times> TilesByZ"

record TileSource =
  source_getTile :: "nat \<Rightarrow> int \<Rightarrow> int \<Rightarrow> number \<Rightarrow> Projection \<Rightarrow> tid"
  getRevision :: nat
  getTileGridForProjection :: "Projection \<Rightarrow> TileGrid"
  getTilePixelRatio :: "number \<Rightarrow> number"
  getTilePixelSize :: "nat \<Rightarrow> number \<Rightarrow> Projection \<Rightarrow> number \<times> number"
  getGutterForProjection :: "Projection \<Rightarrow> number"
  getOpaque :: "Projection \<Rightarrow> bool"

record TileLayer =
  getSource :: TileSource
  getUseInterimTilesOnError :: bool
  getPreload :: number

text \<open>
  What the renderer's class imports or inherits and this file does not define: the
  methods of \<open>Tile\<close> that compute (\<open>getInterimTile\<close> walks the interim chain in the
  store, \<open>getAlpha\<close> and \<open>inTransition\<close> read the tile's transition for a consumer),
  the functions of \<open>extent.js\<close> and \<open>transform.js\<close>, the base class's
  \<open>createLoadedTileFinder\<close>, and the conversions between numbers and the strings of
  the canvas style.
\<close>

record Env =
  getLayer :: TileLayer
  getUid :: uid
  zDirection :: number
  getInterimTile :: "(tid \<Rightarrow> Tile) \<Rightarrow> tid \<Rightarrow> tid"
  getAlpha :: "Tile \<Rightarrow> uid \<Rightarrow> number \<Rightarrow> number"
  inTransition :: "Tile \<Rightarrow> uid \<Rightarrow> bool"
  getIntersection :: "Extent \<Rightarrow> Extent \<Rightarrow> Extent"
  getTopLeft :: "Extent \<Rightarrow> Coordinate"
  composeTransform :: "number \<Rightarrow> number \<Rightarrow> number \<Rightarrow> number \<Rightarrow> number \<Rightarrow> number \<Rightarrow> number \<Rightarrow> Transform"
  makeInverse :: "Transform \<Rightarrow> Transform"
  applyTransform :: "Transform \<Rightarrow> Coordinate \<Rightarrow> Coordinate"
  transformToString :: "Transform \<Rightarrow> string"
  createLoadedTileFinder :: "TileSource \<Rightarrow> Projection \<Rightarrow> (tid \<Rightarrow> Tile) \<Rightarrow> LoadedTileFinder"
  parseFloat :: "string \<Rightarrow> number"
  numberToString :: "number \<Rightarrow> string"

section \<open>The drawing surface, the frame and the renderer's state\<close>

record Canvas =
  canvas_width :: number
  canvas_height :: number
  style_opacity :: string
  style_transform :: string

text \<open>
  The 2D context: its canvas, the current \<open>globalAlpha\<close>, the stack \<open>save\<close> pushes
  and \<open>restore\<close> pops, and the calls made on it, oldest first. \<open>clipUnrotated\<close>,
  \<open>preRender\<close> and \<open>postRender\<close> are the base class's; they are recorded as calls.
\<close>

datatype ContextCall =
    Save
  | Restore
  | SetGlobalAlpha number
  | ClearRect number number number number
  | DrawImage Image number number number number number number number number
  | ClipUnrotated Extent
  | PreRender
  | PostRender

record Context =
  canvas :: Canvas
  globalAlpha :: number
  saved :: "number list"
  calls :: "ContextCall list"

record ViewState =
  projection :: Projection
  resolution :: number
  center :: Coordinate
  rotation :: number

text \<open>
  The frame state as the renderer reads it. Its two fields the renderer writes,
  \<open>animate\<close> and \<open>usedTiles\<close>, are part of the mutable state below.
\<close>

record FrameState =
  viewState :: ViewState
  pixelRatio :: number
  frame_size :: "number \<times> number"
  frame_extent :: Extent
  frame_time :: number

record LayerState =
  layer_extent :: "Extent option"
  opacity :: number

text \<open>Calls of the base class that manage the source's cache, recorded with their arguments.\<close>

datatype CacheCall =
    ManageTilePyramid Extent nat number
  | ScheduleExpireCache

text \<open>The fallback searches of the selection loop, recorded as they are made.\<close>

datatype SearchCall =
    FindLoadedTiles nat TileRange
  | ParentWalk TileCoord

text \<open>
  Everything a frame can change: the tiles, the renderer's own fields (a private field
  \<open>name_\<close> of the source is \<open>this_name\<close> here), the context, the frame state's
  writable fields, and the records of calls.
\<close>

record World =
  tiles :: "tid \<Rightarrow> Tile"
  this_renderedExtent :: "Extent option"
  renderedRevision :: "nat option"
  renderedResolution :: "number option"
  renderedTiles :: "tid list"
  this_newTiles :: bool
  this_pixelTransform :: Transform
  this_inversePixelTransform :: Transform
  this_tempTransform :: Transform
  this_context :: Context
  animate :: bool
  usedTiles :: "tid list"
  cacheCalls :: "CacheCall list"
  searchCalls :: "SearchCall list"

definition ctx_call :: "ContextCall \<Rightarrow> World \<Rightarrow> World" where
  "ctx_call c s = s\<lparr>this_context := (this_context s)\<lparr>calls := calls (this_context s) @ [c]\<rparr>\<rparr>"

definition ctx_save :: "World \<Rightarrow> World" where
  "ctx_save s =
     ctx_call Save
       (s\<lparr>this_context := (this_context s)\<lparr>saved := globalAlpha (this_context s) # saved (this_context s)\<rparr>\<rparr>)"

definition ctx_restore :: "World \<Rightarrow> World" where
  "ctx_restore s =
     ctx_call Restore
       (case saved (this_context s) of
          [] \<Rightarrow> s
        | a # st \<Rightarrow> s\<lparr>this_context := (this_context s)\<lparr>globalAlpha := a, saved := st\<rparr>\<rparr>)"

definition ctx_setGlobalAlpha :: "number \<Rightarrow> World \<Rightarrow> World" where
  "ctx_setGlobalAlpha a s =
     ctx_call (SetGlobalAlpha a) (s\<lparr>this_context := (this_context s)\<lparr>globalAlpha := a\<rparr>\<rparr>)"

section \<open>The renderer\<close>

subsection \<open>isDrawableTile, getTile, prepareFrame\<close>

definition isDrawableTile :: "Env \<Rightarrow> Tile \<Rightarrow> bool" where
  "isDrawableTile E tile =
     (let tileLayer = getLayer E;
          tileState = getState tile;
          useInterimTilesOnError = getUseInterimTilesOnError tileLayer
      in tileState = LOADED \<or>
         tileState = EMPTY \<or>
         tileState = ERROR \<and> \<not> useInterimTilesOnError)"

definition getTile :: "Env \<Rightarrow> nat \<Rightarrow> int \<Rightarrow> int \<Rightarrow> number \<Rightarrow> Projection \<Rightarrow> World \<Rightarrow> tid \<times> World" where
  "getTile E z x y pixelRatio' projection' s =
     (let tileLayer = getLayer E;
          tileSource = getSource tileLayer;
          tile = source_getTile tileSource z x y pixelRatio' projection';
          s1 = (if getState (tiles s tile) = ERROR then
                  (if \<not> getUseInterimTilesOnError tileLayer then
                     s\<lparr>tiles := (tiles s)(tile := setState LOADED (tiles s tile))\<rparr>
                   else if js_lt (Fin 0) (getPreload tileLayer) then
                     s\<lparr>this_newTiles := True\<rparr>
                   else s)
                else s);
          tile' = (if \<not> isDrawableTile E (tiles s1 tile) then getInterimTile E (tiles s1) tile
                   else tile)
      in (tile', s1))"

definition prepareFrame :: "FrameState \<Rightarrow> LayerState \<Rightarrow> bool" where
  "prepareFrame frameState layerState = True"

subsection \<open>drawTileImage\<close>

definition getTileImage :: "Tile \<Rightarrow> Image option" where
  "getTileImage tile = getImage tile"

definition drawTileImage ::
  "Env \<Rightarrow> tid \<Rightarrow> FrameState \<Rightarrow> number \<Rightarrow> number \<Rightarrow> number \<Rightarrow> number \<Rightarrow> number \<Rightarrow> bool \<Rightarrow> World \<Rightarrow> World" where
  "drawTileImage E tile frameState x y w h gutter transition s =
     (case getTileImage (tiles s tile) of
        None \<Rightarrow> s
      | Some img \<Rightarrow>
          let u = getUid E;
              alpha = (if transition then getAlpha E (tiles s tile) u (frame_time frameState) else Fin 1);
              tileLayer = getLayer E;
              tileSource = getSource tileLayer;
              s1 = (if js_eq alpha (Fin 1) \<and> \<not> getOpaque tileSource (projection (viewState frameState))
                    then ctx_call (ClearRect x y w h) s else s);
              alphaChanged = (\<not> js_eq alpha (globalAlpha (this_context s1)));
              s2 = (if alphaChanged then ctx_setGlobalAlpha alpha (ctx_save s1) else s1);
              s3 = ctx_call (DrawImage img gutter gutter
                               (js_sub (image_width img) (js_mul (Fin 2) gutter))
                               (js_sub (image_height img) (js_mul (Fin 2) gutter)) x y w h) s2;
              s4 = (if alphaChanged then ctx_restore s3 else s3)
          in if \<not> js_eq alpha (Fin 1) then s4\<lparr>animate := True\<rparr>
             else if transition then s4\<lparr>tiles := (tiles s4)(tile := endTransition u (tiles s4 tile))\<rparr>
             else s4)"

subsection \<open>renderFrame: selecting the tiles (lines 172 to 206)\<close>

text \<open>
  The one fault the code of \<open>renderFrame\<close> can raise by itself: writing a property of
  \<open>tilesToDrawByZ[z]\<close> when that entry is undefined.
\<close>

datatype error = TypeError

fun forEach :: "'a list \<Rightarrow> ('a \<Rightarrow> 's \<Rightarrow> error + 's) \<Rightarrow> 's \<Rightarrow> error + 's" where
  "forEach [] f s = Inr s"
| "forEach (a # as) f s = (case f a s of Inl e \<Rightarrow> Inl e | Inr s' \<Rightarrow> forEach as f s')"

definition search_call :: "SearchCall \<Rightarrow> World \<Rightarrow> World" where
  "search_call c s = s\<lparr>searchCalls := searchCalls s @ [c]\<rparr>"

text \<open>
  Lines 195 to 203: the fallback search for one tile. The child range is searched at
  \<open>z + 1\<close> when the grid gives one; the ancestors are walked when the children do
  not cover.
\<close>

definition searchAltTiles ::
  "Env \<Rightarrow> Projection \<Rightarrow> nat \<Rightarrow> tid \<Rightarrow> World \<times> TilesByZ \<Rightarrow> World \<times> TilesByZ" where
  "searchAltTiles E projection' z tile sb =
     (let (s, tilesToDrawByZ) = sb;
          tileSource = getSource (getLayer E);
          tileGrid = getTileGridForProjection tileSource projection';
          findLoadedTiles = createLoadedTileFinder E tileSource projection' (tiles s);
          coord = tileCoord (tiles s tile);
          childTileRange = getTileCoordChildTileRange tileGrid coord;
          (covered, sb1) =
             (case childTileRange of
                None \<Rightarrow> (False, (s, tilesToDrawByZ))
              | Some r \<Rightarrow>
                  let (c, b) = findLoadedTiles (z + 1) r tilesToDrawByZ
                  in (c, (search_call (FindLoadedTiles (z + 1) r) s, b)))
      in if \<not> covered then
           (search_call (ParentWalk coord) (fst sb1),
            snd (forEachTileCoordParentTileRange tileGrid coord findLoadedTiles (snd sb1)))
         else sb1)"

text \<open>Lines 179 to 204: the body of the selection loop, for the coordinate \<open>(z, x, y)\<close>.\<close>

definition selectTile ::
  "Env \<Rightarrow> FrameState \<Rightarrow> nat \<Rightarrow> int \<Rightarrow> int \<Rightarrow> World \<times> TilesByZ \<Rightarrow> error + World \<times> TilesByZ" where
  "selectTile E frameState z x y sb =
     (let (s, tilesToDrawByZ) = sb;
          projection' = projection (viewState frameState);
          (tile, s1) = getTile E z x y (pixelRatio frameState) projection' s;
          t = tiles s1 tile
      in if isDrawableTile E t then
           (let u = getUid E
            in case (if getState t = LOADED then
                       (case obj_get z tilesToDrawByZ of
                          None \<Rightarrow> Inl TypeError
                        | Some tilesAtZ \<Rightarrow>
                            let b = obj_put z (obj_put (tileCoord t) tile tilesAtZ) tilesToDrawByZ;
                                inTransition' = inTransition E t u
                            in Inr (if \<not> this_newTiles s1 \<and>
                                       (inTransition' \<or> tile \<notin> set (renderedTiles s1))
                                    then s1\<lparr>this_newTiles := True\<rparr> else s1, b))
                     else Inr (s1, tilesToDrawByZ)) of
                 Inl e \<Rightarrow> Inl e
               | Inr sb2 \<Rightarrow>
                   if js_eq (getAlpha E t u (frame_time frameState)) (Fin 1) then Inr sb2
                   else Inr (searchAltTiles E projection' z tile sb2))
         else Inr (searchAltTiles E projection' z tile (s1, tilesToDrawByZ)))"

text \<open>Lines 177 to 206: the two loops over the tile range.\<close>

definition selectTiles ::
  "Env \<Rightarrow> FrameState \<Rightarrow> nat \<Rightarrow> TileRange \<Rightarrow> World \<times> TilesByZ \<Rightarrow> error + World \<times> TilesByZ" where
  "selectTiles E frameState z tileRange =
     forEach [minX tileRange..maxX tileRange]
       (\<lambda>x. forEach [minY tileRange..maxY tileRange] (\<lambda>y. selectTile E frameState z x y))"

subsection \<open>renderFrame: the order of the zoom levels (lines 244 to 253)\<close>

text \<open>
  \<open>Object.keys\<close> lists the keys of \<open>tilesToDrawByZ\<close>, which are array indices, in
  ascending order. \<open>Array.prototype.sort\<close> is modelled by a stable insertion sort
  driven by the comparator's sign.
\<close>

definition Object_keys :: "TilesByZ \<Rightarrow> nat list" where
  "Object_keys tilesToDrawByZ = sort (map fst tilesToDrawByZ)"

fun insert_by :: "('a \<Rightarrow> 'a \<Rightarrow> int) \<Rightarrow> 'a \<Rightarrow> 'a list \<Rightarrow> 'a list" where
  "insert_by c a [] = [a]"
| "insert_by c a (b # bs) = (if c a b \<le> 0 then a # b # bs else b # insert_by c a bs)"

definition Array_sort :: "('a \<Rightarrow> 'a \<Rightarrow> int) \<Rightarrow> 'a list \<Rightarrow> 'a list" where
  "Array_sort c xs = foldr (insert_by c) xs []"

definition zCompare :: "nat \<Rightarrow> nat \<Rightarrow> nat \<Rightarrow> int" where
  "zCompare z a b =
     (if a = z then 1
      else if b = z then - 1
      else (if a > b then 1 else if a < b then - 1 else 0))"

subsection \<open>renderFrame: the destination rectangle (lines 274 to 282)\<close>

definition destRect ::
  "Coordinate \<Rightarrow> TileCoord \<Rightarrow> TileCoord \<Rightarrow> number \<Rightarrow> number \<Rightarrow> number \<times> number \<times> number \<times> number" where
  "destRect origin originTileCoord tileCoord' dx dy =
     (let (oz, ox, oy) = originTileCoord;
          (tz, tx, ty) = tileCoord';
          floatX = js_sub (fst origin) (js_mul (js_sub (num_of_int ox) (num_of_int tx)) dx);
          nextX = Math_round (js_add floatX dx);
          floatY = js_sub (snd origin) (js_mul (js_sub (num_of_int oy) (num_of_int ty)) dy);
          nextY = Math_round (js_add floatY dy);
          x = Math_round floatX;
          y = Math_round floatY;
          w = js_sub nextX x;
          h = js_sub nextY y
      in (x, y, w, h))"

subsection \<open>renderFrame: drawing (lines 255 to 288)\<close>

text \<open>
  Modelled from the spec: \<open>updateUsedTiles\<close> is the base class's; the spec has it add
  the drawn tile to the frame's used-tiles accumulator.
\<close>

definition updateUsedTiles :: "tid \<Rightarrow> World \<Rightarrow> World" where
  "updateUsedTiles tile s = s\<lparr>usedTiles := usedTiles s @ [tile]\<rparr>"

text \<open>Lines 271 to 286: one tile of the level \<open>currentZ\<close>.\<close>

definition drawTile ::
  "Env \<Rightarrow> FrameState \<Rightarrow> nat \<Rightarrow> nat \<Rightarrow> Coordinate \<Rightarrow> TileCoord \<Rightarrow> number \<Rightarrow> number \<Rightarrow> number \<Rightarrow>
     tid \<Rightarrow> World \<Rightarrow> World" where
  "drawTile E frameState z currentZ origin originTileCoord dx dy tileGutter tile s =
     (let tileCoord' = tileCoord (tiles s tile);
          (x, y, w, h) = destRect origin originTileCoord tileCoord' dx dy;
          s1 = drawTileImage E tile frameState x y w h tileGutter (z = currentZ) s;
          s2 = s1\<lparr>renderedTiles := renderedTiles s1 @ [tile]\<rparr>
      in updateUsedTiles tile s2)"

text \<open>
  Lines 256 to 287: one zoom level. \<open>for ... in\<close> over an undefined entry visits
  nothing.
\<close>

definition drawZ ::
  "Env \<Rightarrow> FrameState \<Rightarrow> nat \<Rightarrow> number \<Rightarrow> number \<Rightarrow> Extent \<Rightarrow> number \<Rightarrow> TilesByZ \<Rightarrow>
     nat \<Rightarrow> World \<Rightarrow> World" where
  "drawZ E frameState z tileResolution canvasScale canvasExtent tilePixelRatio tilesToDrawByZ currentZ s =
     (let projection' = projection (viewState frameState);
          pixelRatio' = pixelRatio frameState;
          tileSource = getSource (getLayer E);
          tileGrid = getTileGridForProjection tileSource projection';
          currentTilePixelSize = getTilePixelSize tileSource currentZ pixelRatio' projection';
          currentResolution = getResolution tileGrid currentZ;
          currentScale = js_div currentResolution tileResolution;
          dx = js_mul (js_mul (fst currentTilePixelSize) currentScale) canvasScale;
          dy = js_mul (js_mul (snd currentTilePixelSize) currentScale) canvasScale;
          originTileCoord = getTileCoordForCoordAndZ tileGrid (getTopLeft E canvasExtent) currentZ;
          (ote0, ote1, ote2, ote3) = getTileCoordExtent tileGrid originTileCoord;
          (ce0, ce1, ce2, ce3) = canvasExtent;
          origin = applyTransform E (this_tempTransform s)
                     (Math_round (js_div (js_mul tilePixelRatio (js_sub ote0 ce0)) tileResolution),
                      Math_round (js_div (js_mul tilePixelRatio (js_sub ce3 ote3)) tileResolution));
          tileGutter = js_mul tilePixelRatio (getGutterForProjection tileSource projection');
          tilesToDraw = (case obj_get currentZ tilesToDrawByZ of None \<Rightarrow> [] | Some m \<Rightarrow> m)
      in fold (\<lambda>kv. drawTile E frameState z currentZ origin originTileCoord dx dy tileGutter (snd kv))
           tilesToDraw s)"

subsection \<open>renderFrame\<close>

text \<open>The quantities of lines 124 to 164, each as the source computes it.\<close>

definition frameTileGrid :: "Env \<Rightarrow> FrameState \<Rightarrow> TileGrid" where
  "frameTileGrid E frameState =
     getTileGridForProjection (getSource (getLayer E)) (projection (viewState frameState))"

definition frameZ :: "Env \<Rightarrow> FrameState \<Rightarrow> nat" where
  "frameZ E frameState =
     getZForResolution (frameTileGrid E frameState) (resolution (viewState frameState)) (zDirection E)"

definition frameTileResolution :: "Env \<Rightarrow> FrameState \<Rightarrow> number" where
  "frameTileResolution E frameState = getResolution (frameTileGrid E frameState) (frameZ E frameState)"

definition frameExtent :: "Env \<Rightarrow> FrameState \<Rightarrow> LayerState \<Rightarrow> Extent" where
  "frameExtent E frameState layerState =
     (case layer_extent layerState of
        None \<Rightarrow> frame_extent frameState
      | Some le \<Rightarrow> getIntersection E (frame_extent frameState) le)"

definition frameTilePixelRatio :: "Env \<Rightarrow> FrameState \<Rightarrow> number" where
  "frameTilePixelRatio E frameState = getTilePixelRatio (getSource (getLayer E)) (pixelRatio frameState)"

text \<open>Lines 147 to 153: the desired dimensions of the canvas in pixels.\<close>

definition canvasSize :: "Env \<Rightarrow> FrameState \<Rightarrow> number \<times> number" where
  "canvasSize E frameState =
     (let tilePixelRatio = frameTilePixelRatio E frameState;
          width = Math_round (js_mul (fst (frame_size frameState)) tilePixelRatio);
          height = Math_round (js_mul (snd (frame_size frameState)) tilePixelRatio)
      in if truthy (rotation (viewState frameState)) then
           (let size' = Math_round (Math_sqrt (js_add (js_mul width width) (js_mul height height)))
            in (size', size'))
         else (width, height))"

text \<open>Lines 155 to 162.\<close>

definition frameCanvasExtent :: "Env \<Rightarrow> FrameState \<Rightarrow> Extent" where
  "frameCanvasExtent E frameState =
     (let tileResolution = frameTileResolution E frameState;
          tilePixelRatio = frameTilePixelRatio E frameState;
          (width, height) = canvasSize E frameState;
          viewCenter = center (viewState frameState);
          dx = js_div (js_div (js_mul tileResolution width) (Fin 2)) tilePixelRatio;
          dy = js_div (js_div (js_mul tileResolution height) (Fin 2)) tilePixelRatio
      in (js_sub (fst viewCenter) dx, js_sub (snd viewCenter) dy,
          js_add (fst viewCenter) dx, js_add (snd viewCenter) dy))"

definition frameTileRange :: "Env \<Rightarrow> FrameState \<Rightarrow> LayerState \<Rightarrow> TileRange" where
  "frameTileRange E frameState layerState =
     getTileRangeForExtentAndZ (frameTileGrid E frameState)
       (frameExtent E frameState layerState) (frameZ E frameState)"

text \<open>
  Lines 229 to 234. Assigning the width or the height of a canvas resets its context
  to the default state.
\<close>

definition resizeOrClear :: "number \<Rightarrow> number \<Rightarrow> World \<Rightarrow> World" where
  "resizeOrClear width height s =
     (let context' = this_context s; canvas' = canvas context'
      in if \<not> js_eq (canvas_width canvas') width \<or> \<not> js_eq (canvas_height canvas') height then
           s\<lparr>this_context := context'
               \<lparr>canvas := canvas'\<lparr>canvas_width := width, canvas_height := height\<rparr>,
                globalAlpha := Fin 1, saved := []\<rparr>\<rparr>
         else ctx_call (ClearRect (Fin 0) (Fin 0) width height) s)"

text \<open>
  Modelled from the spec: \<open>clipUnrotated\<close> is the base class's; the clip lasts for the
  frame, the context's state being saved before it and restored at line 302.
\<close>

definition clipUnrotated :: "Extent \<Rightarrow> World \<Rightarrow> World" where
  "clipUnrotated extent s = ctx_call (ClipUnrotated extent) (ctx_save s)"

text \<open>Lines 305 to 313: the opacity and the transform of the canvas style.\<close>

definition updateStyle :: "Env \<Rightarrow> LayerState \<Rightarrow> World \<Rightarrow> World" where
  "updateStyle E layerState s =
     (let context' = this_context s;
          canvas' = canvas context';
          opacity' = opacity layerState;
          canvas1 = (if \<not> js_eq opacity' (parseFloat E (style_opacity canvas'))
                     then canvas'\<lparr>style_opacity := numberToString E opacity'\<rparr> else canvas');
          canvasTransform = transformToString E (this_pixelTransform s);
          canvas2 = (if canvasTransform \<noteq> style_transform canvas1
                     then canvas1\<lparr>style_transform := canvasTransform\<rparr> else canvas1)
      in s\<lparr>this_context := context'\<lparr>canvas := canvas2\<rparr>\<rparr>)"

text \<open>
  Lines 209 to 242: the transforms, the canvas, the clip, the \<open>prerender\<close> event, and
  the emptying of \<open>renderedTiles\<close>.
\<close>

definition prepareCanvas :: "Env \<Rightarrow> FrameState \<Rightarrow> LayerState \<Rightarrow> World \<Rightarrow> World" where
  "prepareCanvas E frameState layerState s2 =
     (let viewResolution = resolution (viewState frameState);
          rotation' = rotation (viewState frameState);
          tileResolution = frameTileResolution E frameState;
          tilePixelRatio = frameTilePixelRatio E frameState;
          (width, height) = canvasSize E frameState;
          canvasScale = js_div tileResolution viewResolution;
          s3 = s2\<lparr>this_pixelTransform :=
                  composeTransform E
                    (js_div (fst (frame_size frameState)) (Fin 2))
                    (js_div (snd (frame_size frameState)) (Fin 2))
                    (js_div (Fin 1) tilePixelRatio) (js_div (Fin 1) tilePixelRatio)
                    rotation'
                    (js_div (js_neg width) (Fin 2)) (js_div (js_neg height) (Fin 2))\<rparr>;
          s4 = s3\<lparr>this_inversePixelTransform := makeInverse E (this_pixelTransform s3)\<rparr>;
          s5 = s4\<lparr>this_tempTransform :=
                  composeTransform E
                    (js_div width (Fin 2)) (js_div height (Fin 2))
                    canvasScale canvasScale
                    (Fin 0)
                    (js_div (js_neg width) (Fin 2)) (js_div (js_neg height) (Fin 2))\<rparr>;
          s6 = resizeOrClear width height s5;
          s7 = (case layer_extent layerState of
                  None \<Rightarrow> s6 | Some le \<Rightarrow> clipUnrotated le s6);
          s8 = ctx_call PreRender s7
      in s8\<lparr>renderedTiles := []\<rparr>)"

text \<open>Lines 244 to 288: the zoom levels in drawing order, each with its tiles.\<close>

definition drawLevels :: "Env \<Rightarrow> FrameState \<Rightarrow> TilesByZ \<Rightarrow> World \<Rightarrow> World" where
  "drawLevels E frameState tilesToDrawByZ s =
     (let z = frameZ E frameState;
          tileResolution = frameTileResolution E frameState;
          canvasScale = js_div tileResolution (resolution (viewState frameState));
          zs = Array_sort (zCompare z) (Object_keys tilesToDrawByZ)
      in fold (drawZ E frameState z tileResolution canvasScale (frameCanvasExtent E frameState)
                 (frameTilePixelRatio E frameState) tilesToDrawByZ) zs s)"

text \<open>
  Lines 291 to 313: the bookkeeping, the calls that manage the cache, the
  \<open>postrender\<close> event, the end of the clip and the style of the canvas.
\<close>

definition finishFrame :: "Env \<Rightarrow> FrameState \<Rightarrow> LayerState \<Rightarrow> World \<Rightarrow> World" where
  "finishFrame E frameState layerState s10 =
     (let tileLayer = getLayer E;
          s11 = s10\<lparr>renderedRevision := Some (getRevision (getSource tileLayer)),
                     renderedResolution := Some (frameTileResolution E frameState),
                     this_renderedExtent := Some (frameCanvasExtent E frameState)\<rparr>;
          s12 = s11\<lparr>cacheCalls := cacheCalls s11 @
                     [ManageTilePyramid (frameExtent E frameState layerState) (frameZ E frameState)
                        (getPreload tileLayer),
                      ScheduleExpireCache]\<rparr>;
          s13 = ctx_call PostRender s12;
          s14 = (case layer_extent layerState of
                   None \<Rightarrow> s13 | Some le \<Rightarrow> ctx_restore s13)
      in updateStyle E layerState s14)"

definition renderFrame :: "Env \<Rightarrow> FrameState \<Rightarrow> LayerState \<Rightarrow> World \<Rightarrow> error + Canvas \<times> World" where
  "renderFrame E frameState layerState s0 =
     (let z = frameZ E frameState;
          tileRange = frameTileRange E frameState layerState;
          tilesToDrawByZ0 = obj_put z [] [];
          s1 = s0\<lparr>this_newTiles := False\<rparr>
      in case selectTiles E frameState z tileRange (s1, tilesToDrawByZ0) of
           Inl e \<Rightarrow> Inl e
         | Inr (s2, tilesToDrawByZ) \<Rightarrow>
             let s15 = finishFrame E frameState layerState
                         (drawLevels E frameState tilesToDrawByZ
                            (prepareCanvas E frameState layerState s2))
             in Inr (canvas (this_context s15), s15))"

subsection \<open>Notions used in the statements\<close>

text \<open>
  How a lifecycle state may differ after the renderer has run: not at all, or from
  \<open>ERROR\<close> to \<open>LOADED\<close> for a layer that does not use interim tiles on error.
\<close>

definition stateChange :: "Env \<Rightarrow> TileState \<Rightarrow> TileState \<Rightarrow> bool" where
  "stateChange E before after =
     (after = before \<or>
      (before = ERROR \<and> after = LOADED \<and> \<not> getUseInterimTilesOnError (getLayer E)))"

text \<open>The tiles selected at one zoom level, in the order \<open>for ... in\<close> visits them.\<close>

definition tilesAt :: "TilesByZ \<Rightarrow> nat \<Rightarrow> tid list" where
  "tilesAt b z = map snd (case obj_get z b of None \<Rightarrow> [] | Some m \<Rightarrow> m)"

text \<open>
  The source creates the entry \<open>tilesToDrawByZ[z]\<close> at line 170 and never deletes an
  entry; the finder made by \<open>createLoadedTileFinder\<close> and the grid's walk over the
  ancestors, which are parameters here, are the only other writers. They keep the
  entries when every entry present before a call is present after it.
\<close>

definition keepsEntries :: "(TilesByZ \<Rightarrow> bool \<times> TilesByZ) \<Rightarrow> bool" where
  "keepsEntries f = (\<forall>b k. obj_get k b \<noteq> None \<longrightarrow> obj_get k (snd (f b)) \<noteq> None)"

definition findersKeepEntries :: "Env \<Rightarrow> bool" where
  "findersKeepEntries E =
     ((\<forall>src proj store z r. keepsEntries (createLoadedTileFinder E src proj store z r)) \<and>
      (\<forall>proj c f. (\<forall>z r. keepsEntries (f z r)) \<longrightarrow>
         keepsEntries (forEachTileCoordParentTileRange
                         (getTileGridForProjection (getSource (getLayer E)) proj) c f)))"

text \<open>The tile range is empty: \<open>minX > maxX\<close> or \<open>minY > maxY\<close>.\<close>

definition emptyRange :: "TileRange \<Rightarrow> bool" where
  "emptyRange r = (maxX r < minX r \<or> maxY r < minY r)"

section \<open>A concrete setting\<close>

text \<open>
  A small source, grid and layer on which the renderer can be run: one pyramid of
  256-pixel tiles with its origin at the top left corner \<open>(0, 0)\<close>, resolution
  \<open>pow2 (- z)\<close> at level \<open>z\<close>, levels \<open>0\<close> to \<open>maxZoom\<close>, and a zoom factor of 2. The
  view is unrotated. The source's cache is a list of coordinates with their tiles.
\<close>

definition demoSpan :: "nat \<Rightarrow> rat" where
  "demoSpan z = 256 * pow2 (- int z)"

definition demoVal :: "number \<Rightarrow> rat" where
  "demoVal v = (case finite_val v of None \<Rightarrow> 0 | Some q \<Rightarrow> q)"

definition demoRange :: "Extent \<Rightarrow> nat \<Rightarrow> TileRange" where
  "demoRange e z =
     (let (x0, y0, x1, y1) = e
      in \<lparr>minX = \<lfloor>demoVal x0 / demoSpan z\<rfloor>, maxX = \<lceil>demoVal x1 / demoSpan z\<rceil> - 1,
          minY = \<lfloor>- demoVal y1 / demoSpan z\<rfloor>, maxY = \<lceil>- demoVal y0 / demoSpan z\<rceil> - 1\<rparr>)"

definition demoCoord :: "Coordinate \<Rightarrow> nat \<Rightarrow> TileCoord" where
  "demoCoord c z = (z, \<lfloor>demoVal (fst c) / demoSpan z\<rfloor>, \<lfloor>- demoVal (snd c) / demoSpan z\<rfloor>)"

definition demoCoordExtent :: "TileCoord \<Rightarrow> Extent" where
  "demoCoordExtent c =
     (let (z, x, y) = c
      in (fl (of_int x * demoSpan z), fl (- of_int (y + 1) * demoSpan z),
          fl (of_int (x + 1) * demoSpan z), fl (- of_int y * demoSpan z)))"

definition demoChildRange :: "nat \<Rightarrow> TileCoord \<Rightarrow> TileRange option" where
  "demoChildRange maxZoom c =
     (let (z, x, y) = c
      in if z < maxZoom then Some \<lparr>minX = 2 * x, maxX = 2 * x + 1, minY = 2 * y, maxY = 2 * y + 1\<rparr>
         else None)"

fun demoParents :: "nat \<Rightarrow> int \<Rightarrow> int \<Rightarrow> LoadedTileFinder \<Rightarrow> TilesByZ \<Rightarrow> bool \<times> TilesByZ" where
  "demoParents 0 x y f b = (False, b)"
| "demoParents (Suc z) x y f b =
     (case f z \<lparr>minX = x div 2, maxX = x div 2, minY = y div 2, maxY = y div 2\<rparr> b of
        (True, b') \<Rightarrow> (True, b')
      | (False, b') \<Rightarrow> demoParents z (x div 2) (y div 2) f b')"

definition demoGrid :: "nat \<Rightarrow> nat \<Rightarrow> TileGrid" where
  "demoGrid z0 maxZoom =
     \<lparr>getZForResolution = (\<lambda>res dir. z0),
      getResolution = (\<lambda>z. Fin (pow2 (- int z))),
      getTileRangeForExtentAndZ = demoRange,
      getTileCoordForCoordAndZ = demoCoord,
      getTileCoordExtent = demoCoordExtent,
      getTileCoordChildTileRange = demoChildRange maxZoom,
      forEachTileCoordParentTileRange = (\<lambda>c f b. case c of (z, x, y) \<Rightarrow> demoParents z x y f b)\<rparr>"

type_synonym demoCache = "(TileCoord \<times> tid) list"

definition demoSource :: "demoCache \<Rightarrow> bool \<Rightarrow> nat \<Rightarrow> nat \<Rightarrow> TileSource" where
  "demoSource cache opaque z0 maxZoom =
     \<lparr>source_getTile = (\<lambda>z x y pr proj. case obj_get (z, x, y) cache of None \<Rightarrow> 0 | Some t \<Rightarrow> t),
      getRevision = 7,
      getTileGridForProjection = (\<lambda>proj. demoGrid z0 maxZoom),
      getTilePixelRatio = (\<lambda>pr. Fin 1),
      getTilePixelSize = (\<lambda>z pr proj. (Fin 256, Fin 256)),
      getGutterForProjection = (\<lambda>proj. Fin 0),
      getOpaque = (\<lambda>proj. opaque)\<rparr>"

text \<open>
  The finder of the concrete setting: the cached tiles of the level that lie in the
  range and are loaded are registered; the range is covered when every coordinate
  of it has one.
\<close>

definition inRange :: "TileRange \<Rightarrow> int \<Rightarrow> int \<Rightarrow> bool" where
  "inRange r x y = (minX r \<le> x \<and> x \<le> maxX r \<and> minY r \<le> y \<and> y \<le> maxY r)"

definition demoLoaded :: "demoCache \<Rightarrow> (tid \<Rightarrow> Tile) \<Rightarrow> nat \<Rightarrow> TileRange \<Rightarrow> (TileCoord \<times> tid) list" where
  "demoLoaded cache store z r =
     filter (\<lambda>(c, t). fst c = z \<and> inRange r (fst (snd c)) (snd (snd c)) \<and> getState (store t) = LOADED)
       cache"

definition demoFinder :: "demoCache \<Rightarrow> (tid \<Rightarrow> Tile) \<Rightarrow> LoadedTileFinder" where
  "demoFinder cache store z r b =
     (let found = demoLoaded cache store z r;
          atZ = (case obj_get z b of None \<Rightarrow> [] | Some m \<Rightarrow> m);
          covered = list_all (\<lambda>x. list_all (\<lambda>y. (z, x, y) \<in> fst ` set found) [minY r..maxY r])
                      [minX r..maxX r]
      in (covered, if found = [] then b else obj_put z (fold (\<lambda>(c, t). obj_put c t) found atZ) b))"

text \<open>An unrotated \<open>compose\<close>, \<open>apply\<close> and \<open>makeInverse\<close>, with the sine 0 and the cosine 1.\<close>

definition demoCompose ::
  "number \<Rightarrow> number \<Rightarrow> number \<Rightarrow> number \<Rightarrow> number \<Rightarrow> number \<Rightarrow> number \<Rightarrow> Transform" where
  "demoCompose dx1 dy1 sx sy angle dx2 dy2 =
     [js_mul sx (Fin 1), js_mul sy (Fin 0), js_mul (js_neg sx) (Fin 0), js_mul sy (Fin 1),
      js_add (js_sub (js_mul (js_mul dx2 sx) (Fin 1)) (js_mul (js_mul dy2 sx) (Fin 0))) dx1,
      js_add (js_add (js_mul (js_mul dx2 sy) (Fin 0)) (js_mul (js_mul dy2 sy) (Fin 1))) dy1]"

definition demoApply :: "Transform \<Rightarrow> Coordinate \<Rightarrow> Coordinate" where
  "demoApply t c =
     (case t of
        [t0, t1, t2, t3, t4, t5] \<Rightarrow>
          (js_add (js_add (js_mul t0 (fst c)) (js_mul t2 (snd c))) t4,
           js_add (js_add (js_mul t1 (fst c)) (js_mul t3 (snd c))) t5)
      | _ \<Rightarrow> (NaN, NaN))"

definition demoInverse :: "Transform \<Rightarrow> Transform" where
  "demoInverse t =
     (case t of
        [a, b, c, d, e, f] \<Rightarrow>
          (let det = js_sub (js_mul a d) (js_mul b c)
           in [js_div d det, js_div (js_neg b) det, js_div (js_neg c) det, js_div a det,
               js_div (js_sub (js_mul c f) (js_mul d e)) det,
               js_neg (js_div (js_sub (js_mul a f) (js_mul b e)) det)])
      | _ \<Rightarrow> t)"

definition demoIntersection :: "Extent \<Rightarrow> Extent \<Rightarrow> Extent" where
  "demoIntersection e1 e2 =
     (let (a0, a1, a2, a3) = e1; (b0, b1, b2, b3) = e2
      in if js_le a0 b2 \<and> js_le b0 a2 \<and> js_le a1 b3 \<and> js_le b1 a3 then
           (if js_lt a0 b0 then b0 else a0, if js_lt a1 b1 then b1 else a1,
            if js_lt a2 b2 then a2 else b2, if js_lt a3 b3 then a3 else b3)
         else (PosInf, PosInf, NegInf, NegInf))"

text \<open>
  The alpha of the concrete setting is the spec's transition function with a
  duration of 250: 1 without a transition start, else the elapsed share clamped to
  \<open>[0, 1]\<close>. Opacities are printed and read as \<open>''1''\<close> or \<open>''0''\<close>.
\<close>

definition demoAlpha :: "Tile \<Rightarrow> uid \<Rightarrow> number \<Rightarrow> number" where
  "demoAlpha t u now =
     (case transitionStarts t u of
        None \<Rightarrow> Fin 1
      | Some start \<Rightarrow>
          let a = js_div (js_sub now start) (Fin 250)
          in if js_lt a (Fin 0) then Fin 0 else if js_lt (Fin 1) a then Fin 1 else a)"

definition demoEnv :: "demoCache \<Rightarrow> bool \<Rightarrow> number \<Rightarrow> bool \<Rightarrow> nat \<Rightarrow> nat \<Rightarrow> Env" where
  "demoEnv cache useInterim preload opaque z0 maxZoom =
     \<lparr>getLayer = \<lparr>getSource = demoSource cache opaque z0 maxZoom,
                  getUseInterimTilesOnError = useInterim,
                  getPreload = preload\<rparr>,
      getUid = 1,
      zDirection = Fin 0,
      getInterimTile = (\<lambda>store t. case interimTile (store t) of None \<Rightarrow> t | Some i \<Rightarrow> i),
      getAlpha = demoAlpha,
      inTransition = (\<lambda>t u. transitionStarts t u \<noteq> None),
      getIntersection = demoIntersection,
      getTopLeft = (\<lambda>e. case e of (e0, e1, e2, e3) \<Rightarrow> (e0, e3)),
      composeTransform = demoCompose,
      makeInverse = demoInverse,
      applyTransform = demoApply,
      transformToString = (\<lambda>t. ''matrix''),
      createLoadedTileFinder = (\<lambda>src proj. demoFinder cache),
      parseFloat = (\<lambda>str. if str = ''1'' then Fin 1 else if str = ''0'' then Fin 0 else NaN),
      numberToString = (\<lambda>n. if js_eq n (Fin 1) then ''1'' else ''0'')\<rparr>"

text \<open>
  A tile with a 256-pixel image and no interim tile, and a world holding the same
  tile under every reference, with a fresh renderer and an empty 300 by 150 canvas.
\<close>

definition demoTile :: "TileCoord \<Rightarrow> TileState \<Rightarrow> number option \<Rightarrow> Tile" where
  "demoTile c st start =
     \<lparr>tileCoord = c, state = st, interimTile = None,
      transitionStarts = (\<lambda>u. if u = 1 then start else None),
      image = Some \<lparr>image_width = Fin 256, image_height = Fin 256\<rparr>\<rparr>"

definition demoWorld :: "(tid \<Rightarrow> Tile) \<Rightarrow> World" where
  "demoWorld store =
     \<lparr>tiles = store,
      this_renderedExtent = None,
      renderedRevision = None,
      renderedResolution = None,
      renderedTiles = [],
      this_newTiles = False,
      this_pixelTransform = [Fin 1, Fin 0, Fin 0, Fin 1, Fin 0, Fin 0],
      this_inversePixelTransform = [Fin 1, Fin 0, Fin 0, Fin 1, Fin 0, Fin 0],
      this_tempTransform = [Fin 1, Fin 0, Fin 0, Fin 1, Fin 0, Fin 0],
      this_context = \<lparr>canvas = \<lparr>canvas_width = Fin 300, canvas_height = Fin 150,
                                 style_opacity = [], style_transform = []\<rparr>,
                      globalAlpha = Fin 1, saved = [], calls = []\<rparr>,
      animate = False,
      usedTiles = [],
      cacheCalls = [],
      searchCalls = []\<rparr>"

definition demoFrame :: "Coordinate \<Rightarrow> number \<times> number \<Rightarrow> Extent \<Rightarrow> number \<Rightarrow> FrameState" where
  "demoFrame c sz e now =
     \<lparr>viewState = \<lparr>projection = ''EPSG:3857'', resolution = Fin 1, center = c, rotation = Fin 0\<rparr>,
      pixelRatio = Fin 1,
      frame_size = sz,
      frame_extent = e,
      frame_time = now\<rparr>"

definition demoLayerState :: LayerState where
  "demoLayerState = \<lparr>layer_extent = None, opacity = Fin 1\<rparr>"

text \<open>
  A tile that is \<open>IDLE\<close> with its four children cached and loaded: the children
  cover, they are registered at level 1, and the ancestors are not walked.
\<close>

definition demoFamily :: "tid \<Rightarrow> Tile" where
  "demoFamily t =
     (if t = 0 then demoTile (0, 0, 0) IDLE None
      else if t = 1 then demoTile (1, 0, 0) LOADED None
      else if t = 2 then demoTile (1, 0, 1) LOADED None
      else if t = 3 then demoTile (1, 1, 0) LOADED None
      else demoTile (1, 1, 1) LOADED None)"

definition demoFamilyCache :: demoCache where
  "demoFamilyCache = [((0, 0, 0), 0), ((1, 0, 0), 1), ((1, 0, 1), 2), ((1, 1, 0), 3), ((1, 1, 1), 4)]"

section \<open>Properties\<close>

subsection \<open>Auxiliary facts\<close>

lemmas ctx_defs = ctx_call_def ctx_save_def ctx_restore_def ctx_setGlobalAlpha_def

lemmas demo_defs = demoEnv_def demoSource_def demoGrid_def demoWorld_def demoTile_def demoFrame_def
  demoLayerState_def demoChildRange_def demoAlpha_def demoFinder_def demoLoaded_def inRange_def

lemma stateChange_refl: "stateChange E a a"
  by (simp add: stateChange_def)

lemma stateChange_trans: "stateChange E a b \<Longrightarrow> stateChange E b c \<Longrightarrow> stateChange E a c"
  by (auto simp: stateChange_def)

lemma getTile_state:
  "state (tiles (snd (getTile E z x y pr proj s)) t) =
     (if t = source_getTile (getSource (getLayer E)) z x y pr proj \<and> state (tiles s t) = ERROR \<and>
         \<not> getUseInterimTilesOnError (getLayer E)
      then LOADED else state (tiles s t))"
  by (simp add: getTile_def Let_def getState_def setState_def)

lemma getTile_frame:
  "renderedTiles (snd (getTile E z x y pr proj s)) = renderedTiles s"
  "searchCalls (snd (getTile E z x y pr proj s)) = searchCalls s"
  "tileCoord (tiles (snd (getTile E z x y pr proj s)) t) = tileCoord (tiles s t)"
  by (simp_all add: getTile_def Let_def getState_def setState_def)

lemma searchAltTiles_tiles:
  "tiles (fst (searchAltTiles E proj z tile sb)) = tiles (fst sb)"
  by (cases sb) (auto simp: searchAltTiles_def Let_def search_call_def split: option.split prod.split)

lemma selectTile_state:
  assumes "selectTile E frameState z x y sb = Inr sb'"
  shows "stateChange E (state (tiles (fst sb) t)) (state (tiles (fst sb') t))"
proof -
  obtain s b where sb: "sb = (s, b)" by (cases sb)
  obtain tile s1 where g: "getTile E z x y (pixelRatio frameState) (projection (viewState frameState)) s = (tile, s1)"
    by (cases "getTile E z x y (pixelRatio frameState) (projection (viewState frameState)) s")
  have s1: "stateChange E (state (tiles s t)) (state (tiles s1 t))"
    using getTile_state[of E z x y "pixelRatio frameState" "projection (viewState frameState)" s t] g
    by (auto simp: stateChange_def)
  have "tiles (fst sb') = tiles s1"
    using assms sb g
    by (auto simp: selectTile_def Let_def searchAltTiles_tiles
             split: if_splits option.splits sum.splits prod.splits)
  with s1 sb show ?thesis by simp
qed

lemma forEach_invariant:
  assumes "\<And>a s s'. P s \<Longrightarrow> f a s = Inr s' \<Longrightarrow> P s'"
    and "P s" and "forEach as f s = Inr s'"
  shows "P s'"
  using assms(2,3)
proof (induction as arbitrary: s)
  case Nil
  then show ?case by simp
next
  case (Cons a as)
  then show ?case
    by (cases "f a s") (auto intro: assms(1))
qed

lemma forEach_Nil_inner: "forEach as (\<lambda>x. forEach [] (g x)) s = Inr s"
  by (induction as) simp_all

lemma selectTiles_empty:
  "maxX r < minX r \<or> maxY r < minY r \<Longrightarrow> selectTiles E frameState z r sb = Inr sb"
  by (auto simp: selectTiles_def forEach_Nil_inner)

lemma selectTiles_single:
  "selectTiles E frameState z \<lparr>minX = x, maxX = x, minY = y, maxY = y\<rparr> sb =
     selectTile E frameState z x y sb"
  by (cases "selectTile E frameState z x y sb") (simp_all add: selectTiles_def)

lemma selectTiles_state:
  assumes "selectTiles E frameState z r sb = Inr sb'"
  shows "stateChange E (state (tiles (fst sb) t)) (state (tiles (fst sb') t))"
proof -
  let ?P = "\<lambda>q. stateChange E (state (tiles (fst sb) t)) (state (tiles (fst q) t))"
  have inner: "\<And>x q q'. ?P q \<Longrightarrow>
      forEach [minY r..maxY r] (\<lambda>y. selectTile E frameState z x y) q = Inr q' \<Longrightarrow> ?P q'"
  proof -
    fix x q q'
    assume p: "?P q" and e: "forEach [minY r..maxY r] (\<lambda>y. selectTile E frameState z x y) q = Inr q'"
    show "?P q'"
      by (rule forEach_invariant[where P = ?P, OF _ p e])
         (blast intro: stateChange_trans selectTile_state)
  qed
  show ?thesis
    by (rule forEach_invariant[where P = ?P, OF _ _ assms[unfolded selectTiles_def]])
       (auto intro: inner stateChange_refl)
qed

lemma fold_preserves:
  "(\<And>a s. P (f a s) = P s) \<Longrightarrow> P (fold f as s) = P s"
  by (induction as arbitrary: s) simp_all

lemma drawTileImage_frame:
  "renderedTiles (drawTileImage E tile frameState x y w h gutter transition s) = renderedTiles s"
  "usedTiles (drawTileImage E tile frameState x y w h gutter transition s) = usedTiles s"
  "state (tiles (drawTileImage E tile frameState x y w h gutter transition s) t) = state (tiles s t)"
  by (simp_all add: drawTileImage_def Let_def ctx_defs endTransition_def split: option.split list.split)

lemma drawTile_frame:
  "renderedTiles (drawTile E frameState z cz origin oc dx dy g tile s) = renderedTiles s @ [tile]"
  "state (tiles (drawTile E frameState z cz origin oc dx dy g tile s) t) = state (tiles s t)"
  by (simp_all add: drawTile_def Let_def updateUsedTiles_def drawTileImage_frame split: prod.split)

lemma fold_drawTile_renderedTiles:
  "renderedTiles (fold (\<lambda>kv. drawTile E frameState z cz origin oc dx dy g (snd kv)) kvs s) =
     renderedTiles s @ map snd kvs"
  by (induction kvs arbitrary: s) (simp_all add: drawTile_frame)

lemma drawZ_frame:
  "renderedTiles (drawZ E frameState z res cs ce tpr b cz s) = renderedTiles s @ tilesAt b cz"
  "state (tiles (drawZ E frameState z res cs ce tpr b cz s) t) = state (tiles s t)"
  by (simp_all add: drawZ_def Let_def tilesAt_def fold_drawTile_renderedTiles
        fold_preserves[where P = "\<lambda>s. state (tiles s t)"]
        drawTile_frame split: prod.split)

lemma drawZ_no_tiles: "obj_get cz b = Some [] \<Longrightarrow> drawZ E frameState z res cs ce tpr b cz s = s"
  by (simp add: drawZ_def Let_def split: prod.split)

lemma fold_drawZ_renderedTiles:
  "renderedTiles (fold (drawZ E frameState z res cs ce tpr b) zs s) =
     renderedTiles s @ concat (map (tilesAt b) zs)"
  by (induction zs arbitrary: s) (simp_all add: drawZ_frame)

lemma prepareCanvas_frame:
  "renderedTiles (prepareCanvas E frameState layerState s) = []"
  "tiles (prepareCanvas E frameState layerState s) = tiles s"
  "usedTiles (prepareCanvas E frameState layerState s) = usedTiles s"
  by (simp_all add: prepareCanvas_def Let_def resizeOrClear_def clipUnrotated_def ctx_defs
        split: prod.split option.split)

lemma drawLevels_frame:
  "renderedTiles (drawLevels E frameState b s) =
     renderedTiles s @ concat (map (tilesAt b) (Array_sort (zCompare (frameZ E frameState)) (Object_keys b)))"
  "state (tiles (drawLevels E frameState b s) t) = state (tiles s t)"
  by (simp_all add: drawLevels_def Let_def fold_drawZ_renderedTiles
        fold_preserves[where P = "\<lambda>s. state (tiles s t)"] drawZ_frame)

lemma drawLevels_no_tiles: "drawLevels E frameState [(frameZ E frameState, [])] s = s"
  by (simp add: drawLevels_def Let_def Object_keys_def Array_sort_def drawZ_no_tiles)

lemma finishFrame_frame:
  "renderedTiles (finishFrame E frameState layerState s) = renderedTiles s"
  "usedTiles (finishFrame E frameState layerState s) = usedTiles s"
  "tiles (finishFrame E frameState layerState s) = tiles s"
  "renderedRevision (finishFrame E frameState layerState s) = Some (getRevision (getSource (getLayer E)))"
  "renderedResolution (finishFrame E frameState layerState s) = Some (frameTileResolution E frameState)"
  "this_renderedExtent (finishFrame E frameState layerState s) = Some (frameCanvasExtent E frameState)"
  by (simp_all add: finishFrame_def Let_def updateStyle_def ctx_defs split: option.split list.split)

lemma renderFrame_Inr:
  assumes "selectTiles E frameState (frameZ E frameState) (frameTileRange E frameState layerState)
             (s\<lparr>this_newTiles := False\<rparr>, [(frameZ E frameState, [])]) = Inr (s2, b)"
  shows "\<exists>s'. renderFrame E frameState layerState s = Inr (canvas (this_context s'), s') \<and>
           renderedTiles s' =
             concat (map (tilesAt b) (Array_sort (zCompare (frameZ E frameState)) (Object_keys b))) \<and>
           renderedRevision s' = Some (getRevision (getSource (getLayer E))) \<and>
           renderedResolution s' = Some (frameTileResolution E frameState) \<and>
           this_renderedExtent s' = Some (frameCanvasExtent E frameState) \<and>
           (\<forall>t. state (tiles s' t) = state (tiles s2 t))"
  using assms
  by (simp add: renderFrame_def Let_def finishFrame_frame drawLevels_frame prepareCanvas_frame)

lemma renderFrame_returns:
  assumes "renderFrame E frameState layerState s = Inr (c, s')"
  shows "c = canvas (this_context s') \<and>
         renderedRevision s' = Some (getRevision (getSource (getLayer E))) \<and>
         renderedResolution s' = Some (frameTileResolution E frameState) \<and>
         this_renderedExtent s' = Some (frameCanvasExtent E frameState) \<and>
         stateChange E (state (tiles s t)) (state (tiles s' t))"
proof (cases "selectTiles E frameState (frameZ E frameState) (frameTileRange E frameState layerState)
             (s\<lparr>this_newTiles := False\<rparr>, [(frameZ E frameState, [])])")
  case (Inl e)
  with assms show ?thesis by (simp add: renderFrame_def Let_def)
next
  case (Inr sb)
  obtain s2 b where sb: "sb = (s2, b)" by (cases sb)
  from selectTiles_state[OF Inr, of t] sb
  have "stateChange E (state (tiles s t)) (state (tiles s2 t))" by simp
  with renderFrame_Inr[OF Inr[unfolded sb]] assms show ?thesis by auto
qed


subsection \<open>The concrete setting, evaluated\<close>

lemma demo_frameZ:
  "frameZ (demoEnv cache u p opq z0 mz) frameState = z0"
  by (simp add: frameZ_def frameTileGrid_def demoEnv_def demoSource_def demoGrid_def)

lemma demo_frameTileRange:
  "frameTileRange (demoEnv cache u p opq z0 mz) frameState demoLayerState =
     demoRange (frame_extent frameState) z0"
  by (simp add: frameTileRange_def frameExtent_def frameZ_def frameTileGrid_def demoEnv_def
        demoSource_def demoGrid_def demoLayerState_def)

lemma demo_range_one:
  "demoRange (Fin 100, Fin (- 100), Fin 100, Fin (- 100)) 0 = \<lparr>minX = 0, maxX = 0, minY = 0, maxY = 0\<rparr>"
  by code_simp

lemma demo_range_window:
  "demoRange (Fin 10, Fin (- 200), Fin 200, Fin (- 10)) 0 = \<lparr>minX = 0, maxX = 0, minY = 0, maxY = 0\<rparr>"
  by code_simp

lemma demo_range_corner:
  "demoRange (Fin 256, Fin (- 256), Fin 256, Fin (- 256)) 0 = \<lparr>minX = 1, maxX = 0, minY = 1, maxY = 0\<rparr>"
  by code_simp

lemma demo_select_error:
  "selectTile (demoEnv [((0, 0, 0), 0)] True (Fin 0) False 0 0)
     (demoFrame c sz e now) 0 0 0 ((demoWorld (\<lambda>t. demoTile (0, 0, 0) ERROR None))\<lparr>this_newTiles := False\<rparr>, [(0, [])]) =
   Inr ((demoWorld (\<lambda>t. demoTile (0, 0, 0) ERROR None))\<lparr>this_newTiles := False, searchCalls := [ParentWalk (0, 0, 0)]\<rparr>,
        [(0, [])])"
  by (simp add: selectTile_def getTile_def isDrawableTile_def getState_def searchAltTiles_def
        search_call_def Let_def js_lt_def demo_defs)

lemma demo_select_loaded:
  "selectTile (demoEnv [((0, 0, 0), 0)] True (Fin 0) False 0 0)
     (demoFrame c sz e now) 0 0 0 ((demoWorld (\<lambda>t. demoTile (0, 0, 0) LOADED None))\<lparr>this_newTiles := False\<rparr>, [(0, [])]) =
   Inr ((demoWorld (\<lambda>t. demoTile (0, 0, 0) LOADED None))\<lparr>this_newTiles := True\<rparr>,
        [(0, [((0, 0, 0), 0)])])"
  by (simp add: selectTile_def getTile_def isDrawableTile_def getState_def
        Let_def js_eq_def demo_defs)

subsection \<open>isDrawableTile and prepareFrame\<close>

text \<open>
  Claim C3. The truth table of \<open>isDrawableTile\<close>: a tile is drawable when its state is
  \<open>LOADED\<close> or \<open>EMPTY\<close>, when it is \<open>ERROR\<close> and the layer does not use interim tiles
  on error, and in no other case: not when it is \<open>ERROR\<close> and the layer uses interim
  tiles on error, and not when it is \<open>LOADING\<close> or \<open>IDLE\<close>.
\<close>

theorem isDrawableTile_truth_table:
  "isDrawableTile E tile =
     (case getState tile of
        LOADED \<Rightarrow> True
      | EMPTY \<Rightarrow> True
      | ERROR \<Rightarrow> \<not> getUseInterimTilesOnError (getLayer E)
      | LOADING \<Rightarrow> False
      | IDLE \<Rightarrow> False)"
  by (simp add: isDrawableTile_def split: TileState.split)

text \<open>
  Claim C9. \<open>prepareFrame\<close> returns true for every frame state and layer state, and
  its result does not depend on them.
\<close>

theorem prepareFrame_always_true:
  "prepareFrame frameState layerState = True \<and>
   prepareFrame frameState layerState = prepareFrame frameState' layerState'"
  by (simp add: prepareFrame_def)

subsection \<open>drawTileImage\<close>

text \<open>
  Claim C10. When the tile has no image, \<open>drawTileImage\<close> returns at once: the
  context, the frame's \<open>animate\<close> flag, the tiles with their transitions and all the
  rest of the state are as they were.
\<close>

theorem drawTileImage_no_image:
  "getTileImage (tiles s tile) = None \<Longrightarrow>
   drawTileImage E tile frameState x y w h gutter transition s = s"
  by (simp add: drawTileImage_def)

theorem drawTileImage_no_image_witness:
  "getTileImage (tiles (demoWorld (\<lambda>t. (demoTile (0, 0, 0) LOADING (Some (Fin 900)))\<lparr>image := None\<rparr>)) 0) = None \<and>
   drawTileImage (demoEnv [((0, 0, 0), 0)] True (Fin 0) False 0 0) 0
     (demoFrame (Fin 100, Fin (- 100)) (Fin 512, Fin 512) (Fin (- 156), Fin (- 356), Fin 356, Fin 156) (Fin 1000))
     (Fin 0) (Fin 0) (Fin 256) (Fin 256) (Fin 0) True
     (demoWorld (\<lambda>t. (demoTile (0, 0, 0) LOADING (Some (Fin 900)))\<lparr>image := None\<rparr>)) =
   demoWorld (\<lambda>t. (demoTile (0, 0, 0) LOADING (Some (Fin 900)))\<lparr>image := None\<rparr>)"
proof -
  have h: "getTileImage (tiles (demoWorld (\<lambda>t. (demoTile (0, 0, 0) LOADING (Some (Fin 900)))\<lparr>image := None\<rparr>)) 0) = None"
    by (simp add: getTileImage_def getImage_def demoWorld_def)
  from drawTileImage_no_image[OF h] h show ?thesis by simp
qed

text \<open>
  Claim C7, as amended. For a tile that has an image, \<open>drawTileImage\<close> computes the
  alpha (the tile's transition alpha when \<open>transition\<close> is set, else 1) and then:
  it clears the destination rectangle first exactly when the alpha equals 1 and the
  source is not opaque; it draws the image, under the computed alpha (set between a
  \<open>save\<close> and a \<open>restore\<close> when it differs from the context's); it sets the frame's
  \<open>animate\<close> flag when the alpha is not 1; and it ends the tile's transition when the
  alpha equals 1 and \<open>transition\<close> is set. A tile drawn mid-transition is therefore
  blended over what is on the canvas, without a clear.
\<close>

theorem drawTileImage_effects:
  assumes "getTileImage (tiles s tile) = Some img"
  shows "let alpha = (if transition then getAlpha E (tiles s tile) (getUid E) (frame_time frameState)
                      else Fin 1);
             clear = (js_eq alpha (Fin 1) \<and>
                      \<not> getOpaque (getSource (getLayer E)) (projection (viewState frameState)));
             alphaChanged = (\<not> js_eq alpha (globalAlpha (this_context s)));
             s' = drawTileImage E tile frameState x y w h gutter transition s
         in calls (this_context s') =
              calls (this_context s) @
              (if clear then [ClearRect x y w h] else []) @
              (if alphaChanged then [Save, SetGlobalAlpha alpha] else []) @
              [DrawImage img gutter gutter
                 (js_sub (image_width img) (js_mul (Fin 2) gutter))
                 (js_sub (image_height img) (js_mul (Fin 2) gutter)) x y w h] @
              (if alphaChanged then [Restore] else []) \<and>
            globalAlpha (this_context s') = globalAlpha (this_context s) \<and>
            animate s' = (if js_eq alpha (Fin 1) then animate s else True) \<and>
            tiles s' =
              (if js_eq alpha (Fin 1) \<and> transition
               then (tiles s)(tile := endTransition (getUid E) (tiles s tile)) else tiles s)"
  using assms
  by (simp add: drawTileImage_def Let_def ctx_defs)

lemma demo_image_width: "js_sub (Fin 256) (js_mul (Fin 2) (Fin 0)) = Fin 256"
  by code_simp

lemma demo_alpha_mid: "js_div (js_sub (Fin 1000) (Fin 900)) (Fin 250) = lit (2 / 5)"
  by code_simp

lemma demo_alpha_mid_range:
  "\<not> js_lt (lit (2 / 5)) (Fin 0)" "\<not> js_lt (Fin 1) (lit (2 / 5))" "js_lt (lit (2 / 5)) (Fin 1)"
  "\<not> js_eq (lit (2 / 5)) (Fin 1)"
  by code_simp+

theorem drawTileImage_effects_witness:
  "getTileImage (tiles (demoWorld (\<lambda>t. demoTile (0, 0, 0) LOADED None)) 0) =
     Some \<lparr>image_width = Fin 256, image_height = Fin 256\<rparr> \<and>
   calls (this_context
     (drawTileImage (demoEnv [((0, 0, 0), 0)] True (Fin 0) False 0 0) 0
        (demoFrame (Fin 100, Fin (- 100)) (Fin 512, Fin 512) (Fin (- 156), Fin (- 356), Fin 356, Fin 156) (Fin 1000))
        (Fin 0) (Fin 0) (Fin 256) (Fin 256) (Fin 0) True
        (demoWorld (\<lambda>t. demoTile (0, 0, 0) LOADED None)))) =
     [ClearRect (Fin 0) (Fin 0) (Fin 256) (Fin 256),
      DrawImage \<lparr>image_width = Fin 256, image_height = Fin 256\<rparr> (Fin 0) (Fin 0) (Fin 256) (Fin 256)
        (Fin 0) (Fin 0) (Fin 256) (Fin 256)]"
proof -
  have h: "getTileImage (tiles (demoWorld (\<lambda>t. demoTile (0, 0, 0) LOADED None)) 0) =
             Some \<lparr>image_width = Fin 256, image_height = Fin 256\<rparr>"
    by (simp add: getTileImage_def getImage_def demoWorld_def demoTile_def)
  from drawTileImage_effects[OF h, of True "demoEnv [((0, 0, 0), 0)] True (Fin 0) False 0 0"
      "demoFrame (Fin 100, Fin (- 100)) (Fin 512, Fin 512) (Fin (- 156), Fin (- 356), Fin 356, Fin 156) (Fin 1000)"
      "Fin 0" "Fin 0" "Fin 256" "Fin 256" "Fin 0"] h
  show ?thesis
    by (simp add: Let_def demo_defs js_eq_def demo_image_width)
qed

text \<open>
  The claim as stated fails: a tile drawn mid-transition (alpha 2/5) from a source
  that is not opaque is drawn without the rectangle being cleared.
\<close>

theorem drawTileImage_mid_transition_counterexample:
  "getAlpha (demoEnv [((0, 0, 0), 0)] True (Fin 0) False 0 0)
     (tiles (demoWorld (\<lambda>t. demoTile (0, 0, 0) LOADED (Some (Fin 900)))) 0) 1 (Fin 1000) = lit (2 / 5) \<and>
   js_lt (lit (2 / 5)) (Fin 1) \<and>
   \<not> getOpaque (getSource (getLayer (demoEnv [((0, 0, 0), 0)] True (Fin 0) False 0 0))) ''EPSG:3857'' \<and>
   calls (this_context
     (drawTileImage (demoEnv [((0, 0, 0), 0)] True (Fin 0) False 0 0) 0
        (demoFrame (Fin 100, Fin (- 100)) (Fin 512, Fin 512) (Fin (- 156), Fin (- 356), Fin 356, Fin 156) (Fin 1000))
        (Fin 0) (Fin 0) (Fin 256) (Fin 256) (Fin 0) True
        (demoWorld (\<lambda>t. demoTile (0, 0, 0) LOADED (Some (Fin 900)))))) =
     [Save, SetGlobalAlpha (lit (2 / 5)),
      DrawImage \<lparr>image_width = Fin 256, image_height = Fin 256\<rparr> (Fin 0) (Fin 0) (Fin 256) (Fin 256)
        (Fin 0) (Fin 0) (Fin 256) (Fin 256),
      Restore]"
  by (simp add: drawTileImage_def getTileImage_def getImage_def Let_def ctx_defs demo_defs
        demo_alpha_mid demo_alpha_mid_range demo_image_width)

subsection \<open>getTile\<close>

text \<open>
  Claim C6, as amended. For a tile that the source returns in state \<open>ERROR\<close>: when
  the layer does not use interim tiles on error, \<open>getTile\<close> sets the tile's state to
  \<open>LOADED\<close> and returns that tile, which \<open>isDrawableTile\<close> accepts, and leaves the
  \<open>newTiles\<close> flag as it was; otherwise it leaves the tiles as they were, returns the
  tile's interim tile, and sets the \<open>newTiles\<close> flag to true only when the layer's
  preload is greater than 0: with a preload of 0 the flag stays as it was.
\<close>

theorem getTile_error_tile:
  assumes "getState (tiles s (source_getTile (getSource (getLayer E)) z x y pr proj)) = ERROR"
  shows "let tile = source_getTile (getSource (getLayer E)) z x y pr proj;
             (tile', s') = getTile E z x y pr proj s
         in if \<not> getUseInterimTilesOnError (getLayer E) then
              getState (tiles s' tile) = LOADED \<and> tile' = tile \<and>
              isDrawableTile E (tiles s' tile) \<and> this_newTiles s' = this_newTiles s
            else
              tiles s' = tiles s \<and> tile' = getInterimTile E (tiles s) tile \<and>
              this_newTiles s' =
                (if js_lt (Fin 0) (getPreload (getLayer E)) then True else this_newTiles s)"
  using assms
  by (simp add: getTile_def Let_def isDrawableTile_def getState_def setState_def)

theorem getTile_error_tile_witness:
  "getState (tiles (demoWorld (\<lambda>t. demoTile (0, 0, 0) ERROR None))
     (source_getTile (getSource (getLayer (demoEnv [((0, 0, 0), 0)] True (Fin 2) False 0 0)))
        0 0 0 (Fin 1) ''EPSG:3857'')) = ERROR \<and>
   this_newTiles (snd (getTile (demoEnv [((0, 0, 0), 0)] True (Fin 2) False 0 0) 0 0 0 (Fin 1) ''EPSG:3857''
     (demoWorld (\<lambda>t. demoTile (0, 0, 0) ERROR None))))"
proof -
  have h: "getState (tiles (demoWorld (\<lambda>t. demoTile (0, 0, 0) ERROR None))
     (source_getTile (getSource (getLayer (demoEnv [((0, 0, 0), 0)] True (Fin 2) False 0 0)))
        0 0 0 (Fin 1) ''EPSG:3857'')) = ERROR"
    by (simp add: getState_def demo_defs)
  have p: "js_lt (Fin 0) (Fin 2)" by (simp add: js_lt_def)
  from getTile_error_tile[OF h] h p show ?thesis
    by (simp add: Let_def demoEnv_def split: prod.splits)
qed

text \<open>
  The claim as stated fails: with interim tiles on error in use and a preload of 0,
  \<open>getTile\<close> on an \<open>ERROR\<close> tile leaves the \<open>newTiles\<close> flag false.
\<close>

theorem getTile_error_preload_counterexample:
  "getState (tiles (demoWorld (\<lambda>t. demoTile (0, 0, 0) ERROR None))
     (source_getTile (getSource (getLayer (demoEnv [((0, 0, 0), 0)] True (Fin 0) False 0 0)))
        0 0 0 (Fin 1) ''EPSG:3857'')) = ERROR \<and>
   getUseInterimTilesOnError (getLayer (demoEnv [((0, 0, 0), 0)] True (Fin 0) False 0 0)) \<and>
   \<not> this_newTiles (snd (getTile (demoEnv [((0, 0, 0), 0)] True (Fin 0) False 0 0) 0 0 0 (Fin 1) ''EPSG:3857''
     (demoWorld (\<lambda>t. demoTile (0, 0, 0) ERROR None))))"
  by (simp add: getTile_def Let_def isDrawableTile_def getState_def js_lt_def demo_defs)

subsection \<open>The lifecycle state of the tiles\<close>

text \<open>
  Claim C5, as amended. The renderer changes the lifecycle state of a tile in one
  place only: \<open>getTile\<close> sets the tile the source returns from \<open>ERROR\<close> to \<open>LOADED\<close>
  when the layer does not use interim tiles on error. In every other case \<open>getTile\<close>
  leaves every tile's state as it was (so an \<open>ERROR\<close> tile stays \<open>ERROR\<close> when the layer
  uses interim tiles on error); \<open>drawTileImage\<close> changes no tile's state; and after a
  whole \<open>renderFrame\<close> that returns, the state of every tile is what it was, or has
  gone from \<open>ERROR\<close> to \<open>LOADED\<close> under a layer that does not use interim tiles on
  error.
\<close>

theorem tile_state_changes:
  "state (tiles (snd (getTile E z x y pr proj s)) t) =
     (if t = source_getTile (getSource (getLayer E)) z x y pr proj \<and> state (tiles s t) = ERROR \<and>
         \<not> getUseInterimTilesOnError (getLayer E)
      then LOADED else state (tiles s t)) \<and>
   state (tiles (drawTileImage E tile frameState dx dy dw dh gutter transition s) t) = state (tiles s t) \<and>
   (case renderFrame E frameState layerState s of
      Inl e \<Rightarrow> True
    | Inr (c, s') \<Rightarrow> stateChange E (state (tiles s t)) (state (tiles s' t)))"
proof -
  have "case renderFrame E frameState layerState s of
          Inl e \<Rightarrow> True
        | Inr (c, s') \<Rightarrow> stateChange E (state (tiles s t)) (state (tiles s' t))"
  proof (cases "renderFrame E frameState layerState s")
    case (Inl e)
    then show ?thesis by simp
  next
    case (Inr cs)
    obtain c s' where "cs = (c, s')" by (cases cs)
    with Inr renderFrame_returns[of E frameState layerState s c s' t] show ?thesis by simp
  qed
  then show ?thesis
    by (simp add: getTile_state drawTileImage_frame)
qed


text \<open>
  The claim as stated fails: under a layer that does not use interim tiles on error,
  \<open>getTile\<close> turns the state of an \<open>ERROR\<close> tile into \<open>LOADED\<close>.
\<close>

theorem getTile_sets_loaded_counterexample:
  "state (tiles (demoWorld (\<lambda>t. demoTile (0, 0, 0) ERROR None)) 0) = ERROR \<and>
   \<not> getUseInterimTilesOnError (getLayer (demoEnv [((0, 0, 0), 0)] False (Fin 0) False 0 0)) \<and>
   state (tiles (snd (getTile (demoEnv [((0, 0, 0), 0)] False (Fin 0) False 0 0) 0 0 0 (Fin 1) ''EPSG:3857''
     (demoWorld (\<lambda>t. demoTile (0, 0, 0) ERROR None)))) 0) = LOADED"
  by (simp add: getTile_def Let_def getState_def setState_def demo_defs)

theorem tile_state_changes_witness:
  "state (tiles (snd (getTile (demoEnv [((0, 0, 0), 0)] True (Fin 0) False 0 0) 0 0 0 (Fin 1) ''EPSG:3857''
     (demoWorld (\<lambda>t. demoTile (0, 0, 0) ERROR None)))) 0) = ERROR \<and>
   (\<exists>c s'. renderFrame (demoEnv [((0, 0, 0), 0)] True (Fin 0) False 0 0)
              (demoFrame (Fin 105, Fin (- 105)) (Fin 190, Fin 190) (Fin 10, Fin (- 200), Fin 200, Fin (- 10)) (Fin 1000))
              demoLayerState (demoWorld (\<lambda>t. demoTile (0, 0, 0) ERROR None)) = Inr (c, s') \<and>
            state (tiles s' 0) = ERROR)"
proof -
  let ?E = "demoEnv [((0, 0, 0), 0)] True (Fin 0) False 0 0"
  let ?F = "demoFrame (Fin 105, Fin (- 105)) (Fin 190, Fin 190) (Fin 10, Fin (- 200), Fin 200, Fin (- 10)) (Fin 1000)"
  let ?W = "demoWorld (\<lambda>t. demoTile (0, 0, 0) ERROR None)"
  have sel: "selectTiles ?E ?F (frameZ ?E ?F) (frameTileRange ?E ?F demoLayerState)
               (?W\<lparr>this_newTiles := False\<rparr>, [(frameZ ?E ?F, [])]) =
             Inr (?W\<lparr>this_newTiles := False, searchCalls := [ParentWalk (0, 0, 0)]\<rparr>, [(0, [])])"
    by (simp add: demo_frameZ demo_frameTileRange demoFrame_def demo_range_window selectTiles_single
          demo_select_error[unfolded demoFrame_def])
  from renderFrame_Inr[OF sel] obtain s' where
    r: "renderFrame ?E ?F demoLayerState ?W = Inr (canvas (this_context s'), s')" by blast
  have u: "getUseInterimTilesOnError (getLayer ?E)" by (simp add: demoEnv_def)
  have w: "state (tiles ?W 0) = ERROR" by (simp add: demoWorld_def demoTile_def)
  from tile_state_changes[of ?E 0 0 0 "Fin 1" "''EPSG:3857''" ?W 0 0 ?F "Fin 0" "Fin 0" "Fin 0" "Fin 0" "Fin 0" True demoLayerState]
  have g: "state (tiles (snd (getTile ?E 0 0 0 (Fin 1) ''EPSG:3857'' ?W)) 0) = ERROR"
    and f: "stateChange ?E (state (tiles ?W 0)) (state (tiles s' 0))"
    using r u w by simp_all
  from f u w have "state (tiles s' 0) = ERROR" by (simp add: stateChange_def)
  with g r show ?thesis by blast
qed


subsection \<open>The order of the zoom levels\<close>





text \<open>
  The order does not depend on the sorting algorithm: every arrangement of the zoom
  levels in which no later element compares below an earlier one is the same list.
\<close>

lemma zCompare_order_unique:
  assumes d: "distinct zs" and m: "z \<in> set zs" and dy: "distinct ys" and sy: "set ys = set zs"
    and o: "sorted_wrt (\<lambda>a b. \<not> zCompare z b a < 0) ys"
  shows "ys = sort (removeAll z zs) @ [z]"
proof -
  from sy m have "z \<in> set ys" by simp
  then obtain as bs where ys: "ys = as @ z # bs" by (meson split_list)
  have "bs = []"
  proof (rule ccontr)
    assume "bs \<noteq> []"
    then obtain b where b: "b \<in> set bs" by (cases bs) auto
    with dy ys have "b \<noteq> z" by auto
    moreover from o ys b have "\<not> zCompare z b z < 0"
      by (auto simp: sorted_wrt_append)
    ultimately show False by (simp add: zCompare_def)
  qed
  with ys have ys': "ys = as @ [z]" by simp
  with dy have za: "z \<notin> set as" and da: "distinct as" by auto
  from o ys' have "sorted_wrt (\<lambda>a b. \<not> zCompare z b a < 0) as"
    by (simp add: sorted_wrt_append)
  then have "sorted_wrt (\<le>) as"
  proof (rule sorted_wrt_mono_rel[rotated])
    fix a b
    assume "a \<in> set as" "b \<in> set as" "\<not> zCompare z b a < 0"
    with za show "a \<le> b" by (auto simp: zCompare_def split: if_splits)
  qed
  then have "sorted as" by simp
  moreover have "set as = set (removeAll z zs)" using sy ys' za by auto
  ultimately have "as = sort (removeAll z zs)"
    using da d by (metis distinct_removeAll sorted_sort distinct_sort set_sort sorted_distinct_set_unique)
  with ys' show ?thesis by simp
qed




subsection \<open>The fallback search of the selection loop\<close>

text \<open>
  Claim C2, as amended. For every coordinate of the tile range on which the loop body
  completes: when the selected tile is drawable and its alpha for this renderer at the
  frame time equals 1, neither the child range is searched nor the ancestors are
  walked. Otherwise, when the grid gives a child tile range for the tile's coordinate,
  that range is searched at \<open>z + 1\<close> for full loaded coverage, and the ancestors are
  walked exactly when the children do not cover; when the grid gives no child range,
  no child search is made and the ancestors are walked.
\<close>

theorem selectTile_fallback_gating:
  assumes "selectTile E frameState z x y (s, b) = Inr (s', b')"
  shows "let proj = projection (viewState frameState);
             (tile, s1) = getTile E z x y (pixelRatio frameState) proj s;
             t = tiles s1 tile;
             tileGrid = getTileGridForProjection (getSource (getLayer E)) proj;
             findLoadedTiles = createLoadedTileFinder E (getSource (getLayer E)) proj (tiles s1);
             b1 = (if isDrawableTile E t \<and> getState t = LOADED
                   then obj_put z (obj_put (tileCoord t) tile (the (obj_get z b))) b else b)
         in searchCalls s' = searchCalls s @
              (if isDrawableTile E t \<and> js_eq (getAlpha E t (getUid E) (frame_time frameState)) (Fin 1)
               then []
               else case getTileCoordChildTileRange tileGrid (tileCoord t) of
                      None \<Rightarrow> [ParentWalk (tileCoord t)]
                    | Some r \<Rightarrow>
                        FindLoadedTiles (z + 1) r #
                        (if fst (findLoadedTiles (z + 1) r b1) then [] else [ParentWalk (tileCoord t)]))"
proof -
  obtain tile s1 where g: "getTile E z x y (pixelRatio frameState) (projection (viewState frameState)) s = (tile, s1)"
    by (cases "getTile E z x y (pixelRatio frameState) (projection (viewState frameState)) s")
  have sc: "searchCalls s1 = searchCalls s"
    using getTile_frame(2)[of E z x y "pixelRatio frameState" "projection (viewState frameState)" s] g by simp
  show ?thesis
    using assms g sc
    by (auto simp: selectTile_def searchAltTiles_def Let_def search_call_def
             split: if_splits option.splits sum.splits prod.splits)
qed

lemma demo_select_covered:
  "selectTile (demoEnv demoFamilyCache True (Fin 0) False 0 3)
     (demoFrame c sz e now) 0 0 0 (demoWorld demoFamily, [(0, [])]) =
   Inr ((demoWorld demoFamily)\<lparr>searchCalls := [FindLoadedTiles 1 \<lparr>minX = 0, maxX = 1, minY = 0, maxY = 1\<rparr>]\<rparr>,
        [(0, []), (1, [((1, 0, 0), 1), ((1, 0, 1), 2), ((1, 1, 0), 3), ((1, 1, 1), 4)])])"
proof -
  have u: "[0..1] = [0, 1 :: int]" by (simp add: upto.simps)
  show ?thesis
    by (simp add: selectTile_def getTile_def isDrawableTile_def getState_def searchAltTiles_def
          search_call_def Let_def demo_defs demoFamily_def demoFamilyCache_def u)
qed

theorem selectTile_fallback_gating_witness:
  "\<exists>s' b'. selectTile (demoEnv demoFamilyCache True (Fin 0) False 0 3)
       (demoFrame (Fin 105, Fin (- 105)) (Fin 190, Fin 190) (Fin 10, Fin (- 200), Fin 200, Fin (- 10)) (Fin 1000))
       0 0 0 (demoWorld demoFamily, [(0, [])]) = Inr (s', b') \<and>
     searchCalls s' = [FindLoadedTiles 1 \<lparr>minX = 0, maxX = 1, minY = 0, maxY = 1\<rparr>]"
proof -
  let ?E = "demoEnv demoFamilyCache True (Fin 0) False 0 3"
  let ?F = "demoFrame (Fin 105, Fin (- 105)) (Fin 190, Fin 190) (Fin 10, Fin (- 200), Fin 200, Fin (- 10)) (Fin 1000)"
  let ?S = "(demoWorld demoFamily)\<lparr>searchCalls := [FindLoadedTiles 1 \<lparr>minX = 0, maxX = 1, minY = 0, maxY = 1\<rparr>]\<rparr>"
  let ?B = "[(0, []), (1, [((1, 0, 0), 1), ((1, 0, 1), 2), ((1, 1, 0), 3), ((1, 1, 1), 4)])]"
  have e: "selectTile ?E ?F 0 0 0 (demoWorld demoFamily, [(0, [])]) = Inr (?S, ?B)"
    by (rule demo_select_covered)
  note g = selectTile_fallback_gating[OF e]
  have "searchCalls ?S = [FindLoadedTiles 1 \<lparr>minX = 0, maxX = 1, minY = 0, maxY = 1\<rparr>]"
    using g by simp
  with e show ?thesis by blast
qed

text \<open>
  The claim as stated fails: at the deepest level of the grid a tile that is not
  drawable has no child range, and no child search is made before the ancestors are
  walked.
\<close>

theorem selectTile_no_child_range_counterexample:
  "\<not> isDrawableTile (demoEnv [((0, 0, 0), 0)] True (Fin 0) False 0 0)
       (tiles (demoWorld (\<lambda>t. demoTile (0, 0, 0) IDLE None)) 0) \<and>
   selectTile (demoEnv [((0, 0, 0), 0)] True (Fin 0) False 0 0)
     (demoFrame (Fin 105, Fin (- 105)) (Fin 190, Fin 190) (Fin 10, Fin (- 200), Fin 200, Fin (- 10)) (Fin 1000))
     0 0 0 (demoWorld (\<lambda>t. demoTile (0, 0, 0) IDLE None), [(0, [])]) =
   Inr ((demoWorld (\<lambda>t. demoTile (0, 0, 0) IDLE None))\<lparr>searchCalls := [ParentWalk (0, 0, 0)]\<rparr>, [(0, [])])"
  by (simp add: selectTile_def getTile_def isDrawableTile_def getState_def searchAltTiles_def
        search_call_def Let_def demo_defs)


subsection \<open>renderFrame on degenerate input\<close>

lemma prepareCanvas_calls:
  "calls (this_context (prepareCanvas E frameState layerState s)) =
     calls (this_context s) @
     (let (width, height) = canvasSize E frameState
      in if \<not> js_eq (canvas_width (canvas (this_context s))) width \<or>
            \<not> js_eq (canvas_height (canvas (this_context s))) height
         then [] else [ClearRect (Fin 0) (Fin 0) width height]) @
     (case layer_extent layerState of None \<Rightarrow> [] | Some le \<Rightarrow> [Save, ClipUnrotated le]) @
     [PreRender]"
  by (auto simp: prepareCanvas_def Let_def resizeOrClear_def clipUnrotated_def ctx_defs
        split: prod.split option.split)

lemma finishFrame_calls:
  "calls (this_context (finishFrame E frameState layerState s)) =
     calls (this_context s) @ [PostRender] @
     (case layer_extent layerState of None \<Rightarrow> [] | Some le \<Rightarrow> [Restore])"
  by (simp add: finishFrame_def Let_def updateStyle_def ctx_defs split: option.split list.split)

lemma obj_get_obj_put:
  "obj_get k (obj_put k' v b) = (if k = k' then Some v else obj_get k b)"
  by (induction b) auto

lemma Inr_pair_ex: "r = Inr p \<Longrightarrow> P (snd p) \<Longrightarrow> \<exists>s' b'. r = Inr (s', b') \<and> P b'"
  by (cases p) simp

lemma searchAltTiles_keeps:
  assumes "findersKeepEntries E" and "obj_get k (snd sb) \<noteq> None"
  shows "obj_get k (snd (searchAltTiles E proj z tile sb)) \<noteq> None"
proof -
  obtain s b where sb: "sb = (s, b)" by (cases sb)
  let ?src = "getSource (getLayer E)"
  let ?f = "createLoadedTileFinder E ?src proj (tiles s)"
  let ?walk = "forEachTileCoordParentTileRange (getTileGridForProjection ?src proj) (tileCoord (tiles s tile)) ?f"
  have kf: "\<forall>z r. keepsEntries (?f z r)"
    using assms(1) by (simp add: findersKeepEntries_def)
  from assms(1) have "(\<forall>z r. keepsEntries (?f z r)) \<longrightarrow> keepsEntries ?walk"
    unfolding findersKeepEntries_def by blast
  with kf have kw: "keepsEntries ?walk" by blast
  have f1: "\<And>z r (b :: TilesByZ). obj_get k b \<noteq> None \<Longrightarrow> obj_get k (snd (?f z r b)) \<noteq> None"
    using kf by (simp add: keepsEntries_def)
  have w1: "\<And>b :: TilesByZ. obj_get k b \<noteq> None \<Longrightarrow> obj_get k (snd (?walk b)) \<noteq> None"
    using kw by (simp add: keepsEntries_def)
  show ?thesis
  proof (cases "getTileCoordChildTileRange (getTileGridForProjection ?src proj) (tileCoord (tiles s tile))")
    case None
    with assms(2) sb w1 show ?thesis
      by (simp add: searchAltTiles_def Let_def search_call_def)
  next
    case (Some r)
    obtain c b2 where fr: "?f (z + 1) r b = (c, b2)" by (cases "?f (z + 1) r b")
    from f1[of b "z + 1" r] assms(2) sb fr have b2: "obj_get k b2 \<noteq> None" by simp
    from w1[OF b2] b2 Some fr sb show ?thesis
      by (simp add: searchAltTiles_def Let_def search_call_def)
  qed
qed

lemma selectTile_completes:
  assumes "findersKeepEntries E" and "obj_get z b \<noteq> None"
  shows "\<exists>s' b'. selectTile E frameState z x y (s, b) = Inr (s', b') \<and> obj_get z b' \<noteq> None"
proof -
  let ?proj = "projection (viewState frameState)"
  obtain tile s1 where g: "getTile E z x y (pixelRatio frameState) ?proj s = (tile, s1)"
    by (cases "getTile E z x y (pixelRatio frameState) ?proj s")
  obtain m where m: "obj_get z b = Some m" using assms(2) by auto
  let ?t = "tiles s1 tile"
  let ?b1 = "obj_put z (obj_put (tileCoord ?t) tile m) b"
  have b1: "obj_get z ?b1 \<noteq> None" by (simp add: obj_get_obj_put)
  have ks: "\<And>q bb. obj_get z bb \<noteq> None \<Longrightarrow>
              obj_get z (snd (searchAltTiles E ?proj z tile (q, bb))) \<noteq> None"
    using searchAltTiles_keeps[OF assms(1)] by simp
  show ?thesis
  proof (cases "isDrawableTile E ?t")
    case False
    then have "selectTile E frameState z x y (s, b) = Inr (searchAltTiles E ?proj z tile (s1, b))"
      using g by (simp add: selectTile_def Let_def)
    then show ?thesis
      by (rule Inr_pair_ex) (rule ks[OF assms(2)])
  next
    case True
    show ?thesis
    proof (cases "getState ?t = LOADED")
      case L: True
      let ?s2 = "if \<not> this_newTiles s1 \<and> (inTransition E ?t (getUid E) \<or> tile \<notin> set (renderedTiles s1))
                 then s1\<lparr>this_newTiles := True\<rparr> else s1"
      show ?thesis
      proof (cases "js_eq (getAlpha E ?t (getUid E) (frame_time frameState)) (Fin 1)")
        case True
        with \<open>isDrawableTile E ?t\<close> L g m
        have "selectTile E frameState z x y (s, b) = Inr (?s2, ?b1)"
          by (simp add: selectTile_def Let_def)
        then show ?thesis by (rule Inr_pair_ex) (simp add: obj_get_obj_put)
      next
        case False
        with \<open>isDrawableTile E ?t\<close> L g m
        have "selectTile E frameState z x y (s, b) = Inr (searchAltTiles E ?proj z tile (?s2, ?b1))"
          by (simp add: selectTile_def Let_def)
        then show ?thesis by (rule Inr_pair_ex) (rule ks[OF b1])
      qed
    next
      case NL: False
      show ?thesis
      proof (cases "js_eq (getAlpha E ?t (getUid E) (frame_time frameState)) (Fin 1)")
        case True
        with \<open>isDrawableTile E ?t\<close> NL g
        have "selectTile E frameState z x y (s, b) = Inr (s1, b)"
          by (simp add: selectTile_def Let_def)
        then show ?thesis by (rule Inr_pair_ex) (simp add: assms(2))
      next
        case False
        with \<open>isDrawableTile E ?t\<close> NL g
        have "selectTile E frameState z x y (s, b) = Inr (searchAltTiles E ?proj z tile (s1, b))"
          by (simp add: selectTile_def Let_def)
        then show ?thesis by (rule Inr_pair_ex) (rule ks[OF assms(2)])
      qed
    qed
  qed
qed

lemma forEach_total:
  assumes "\<And>a s. P s \<Longrightarrow> \<exists>s'. f a s = Inr s' \<and> P s'" and "P s"
  shows "\<exists>s'. forEach as f s = Inr s' \<and> P s'"
  using assms(2)
proof (induction as arbitrary: s)
  case Nil
  then show ?case by simp
next
  case (Cons a as)
  from assms(1)[OF Cons.prems] obtain s1 where "f a s = Inr s1" "P s1" by blast
  with Cons.IH[of s1] show ?case by simp
qed

lemma selectTiles_completes:
  assumes "findersKeepEntries E" and "obj_get z b \<noteq> None"
  shows "\<exists>s' b'. selectTiles E frameState z r (s, b) = Inr (s', b')"
proof -
  let ?P = "\<lambda>q :: World \<times> TilesByZ. obj_get z (snd q) \<noteq> None"
  have step: "\<And>x y q. ?P q \<Longrightarrow> \<exists>q'. selectTile E frameState z x y q = Inr q' \<and> ?P q'"
  proof -
    fix x y and q :: "World \<times> TilesByZ"
    assume p: "?P q"
    obtain s0 b0 where q: "q = (s0, b0)" by (cases q)
    from selectTile_completes[OF assms(1), of z b0 frameState x y s0] p q
    show "\<exists>q'. selectTile E frameState z x y q = Inr q' \<and> ?P q'" by auto
  qed
  have inner: "\<And>x q. ?P q \<Longrightarrow>
      \<exists>q'. forEach [minY r..maxY r] (\<lambda>y. selectTile E frameState z x y) q = Inr q' \<and> ?P q'"
  proof -
    fix x and q :: "World \<times> TilesByZ"
    assume p: "?P q"
    show "\<exists>q'. forEach [minY r..maxY r] (\<lambda>y. selectTile E frameState z x y) q = Inr q' \<and> ?P q'"
      by (rule forEach_total[where P = ?P, OF _ p]) (rule step)
  qed
  have p0: "?P (s, b)" using assms(2) by simp
  have "\<exists>q'. selectTiles E frameState z r (s, b) = Inr q' \<and> ?P q'"
    unfolding selectTiles_def
    by (rule forEach_total[where P = ?P, OF _ p0]) (rule inner)
  then obtain q' where "selectTiles E frameState z r (s, b) = Inr q'" by blast
  then show ?thesis by (cases q') simp
qed

lemma renderFrame_completes:
  assumes "findersKeepEntries E"
  shows "\<exists>s'. renderFrame E frameState layerState s = Inr (canvas (this_context s'), s') \<and>
           renderedRevision s' = Some (getRevision (getSource (getLayer E))) \<and>
           renderedResolution s' = Some (frameTileResolution E frameState) \<and>
           this_renderedExtent s' = Some (frameCanvasExtent E frameState)"
proof -
  from selectTiles_completes[OF assms, of "frameZ E frameState" "[(frameZ E frameState, [])]"
      frameState "frameTileRange E frameState layerState" "s\<lparr>this_newTiles := False\<rparr>"]
  obtain s2 b where "selectTiles E frameState (frameZ E frameState) (frameTileRange E frameState layerState)
             (s\<lparr>this_newTiles := False\<rparr>, [(frameZ E frameState, [])]) = Inr (s2, b)"
    by auto
  from renderFrame_Inr[OF this] show ?thesis by blast
qed

lemma demoParents_keeps:
  "(\<forall>z r. keepsEntries (f z r)) \<Longrightarrow> keepsEntries (demoParents z x y f)"
proof (induction z arbitrary: x y)
  case 0
  then show ?case by (simp add: keepsEntries_def)
next
  case (Suc z)
  have f: "\<And>z r (b :: TilesByZ) (k :: nat). obj_get k b \<noteq> None \<Longrightarrow> obj_get k (snd (f z r b)) \<noteq> None"
    using Suc.prems by (simp add: keepsEntries_def)
  have p: "\<And>(b :: TilesByZ) (k :: nat). obj_get k b \<noteq> None \<Longrightarrow> obj_get k (snd (demoParents z (x div 2) (y div 2) f b)) \<noteq> None"
    using Suc.IH[OF Suc.prems] by (simp add: keepsEntries_def)
  show ?case
    unfolding keepsEntries_def
  proof (intro allI impI)
    fix b :: TilesByZ and k :: nat
    assume k: "obj_get k b \<noteq> None"
    let ?r = "\<lparr>minX = x div 2, maxX = x div 2, minY = y div 2, maxY = y div 2\<rparr>"
    obtain c b' where fr: "f z ?r b = (c, b')" by (cases "f z ?r b")
    from f[OF k, of z ?r] fr have b': "obj_get k b' \<noteq> None" by simp
    from p[OF b'] b' fr show "obj_get k (snd (demoParents (Suc z) x y f b)) \<noteq> None"
      by (cases c) simp_all
  qed
qed

lemma demoFinder_keeps: "keepsEntries (demoFinder cache store z r)"
  by (simp add: keepsEntries_def demoFinder_def Let_def obj_get_obj_put)

lemma demo_findersKeepEntries: "findersKeepEntries (demoEnv cache u p opq z0 mz)"
  by (auto simp: findersKeepEntries_def demoEnv_def demoSource_def demoGrid_def
        demoFinder_keeps demoParents_keeps)


text \<open>
  Claim C8, as amended. For every frame state, one whose tile range at the ideal zoom
  is empty or whose viewport has zero size included, \<open>renderFrame\<close> completes without
  raising: it returns the canvas and sets \<open>renderedRevision\<close>, \<open>renderedResolution\<close> and
  \<open>renderedExtent\<close>. With an empty tile range this holds whatever the collaborators
  do, and no tile is drawn: \<open>renderedTiles\<close> is left empty, no tile is used or
  changed, and no \<open>drawImage\<close> call is made (the context sees at most the clearing,
  the clip, the two render events and the restore). With any tile range it holds when
  the finder and the walk over the ancestors keep the entries of \<open>tilesToDrawByZ\<close>,
  as the source itself does; and whenever \<open>renderFrame\<close> returns, it has returned the
  canvas and set the three fields. The size of the viewport is not looked at: the
  tiles of a range that is not empty are selected, drawn and kept in \<open>renderedTiles\<close>
  whatever the size.
\<close>

theorem renderFrame_degenerate_input:
  "(emptyRange (frameTileRange E frameState layerState) \<longrightarrow>
      (\<exists>s'. renderFrame E frameState layerState s = Inr (canvas (this_context s'), s') \<and>
            renderedTiles s' = [] \<and> usedTiles s' = usedTiles s \<and> tiles s' = tiles s \<and>
            calls (this_context s') =
              calls (this_context s) @
              (let (width, height) = canvasSize E frameState
               in if \<not> js_eq (canvas_width (canvas (this_context s))) width \<or>
                     \<not> js_eq (canvas_height (canvas (this_context s))) height
                  then [] else [ClearRect (Fin 0) (Fin 0) width height]) @
              (case layer_extent layerState of None \<Rightarrow> [] | Some le \<Rightarrow> [Save, ClipUnrotated le]) @
              [PreRender, PostRender] @
              (case layer_extent layerState of None \<Rightarrow> [] | Some le \<Rightarrow> [Restore]) \<and>
            renderedRevision s' = Some (getRevision (getSource (getLayer E))) \<and>
            renderedResolution s' = Some (frameTileResolution E frameState) \<and>
            this_renderedExtent s' = Some (frameCanvasExtent E frameState))) \<and>
   (findersKeepEntries E \<longrightarrow>
      (\<exists>s'. renderFrame E frameState layerState s = Inr (canvas (this_context s'), s') \<and>
            renderedRevision s' = Some (getRevision (getSource (getLayer E))) \<and>
            renderedResolution s' = Some (frameTileResolution E frameState) \<and>
            this_renderedExtent s' = Some (frameCanvasExtent E frameState))) \<and>
   (\<forall>c s'. renderFrame E frameState layerState s = Inr (c, s') \<longrightarrow>
      c = canvas (this_context s') \<and>
      renderedRevision s' = Some (getRevision (getSource (getLayer E))) \<and>
      renderedResolution s' = Some (frameTileResolution E frameState) \<and>
      this_renderedExtent s' = Some (frameCanvasExtent E frameState))"
proof (intro conjI impI)
  assume e: "emptyRange (frameTileRange E frameState layerState)"
  let ?s1 = "s\<lparr>this_newTiles := False\<rparr>"
  let ?b = "[(frameZ E frameState, [])]"
  have sel: "selectTiles E frameState (frameZ E frameState) (frameTileRange E frameState layerState)
               (?s1, obj_put (frameZ E frameState) [] []) = Inr (?s1, ?b)"
    using selectTiles_empty[OF e[unfolded emptyRange_def]] by simp
  let ?s' = "finishFrame E frameState layerState (prepareCanvas E frameState layerState ?s1)"
  have r: "renderFrame E frameState layerState s = Inr (canvas (this_context ?s'), ?s')"
    using sel by (simp add: renderFrame_def Let_def drawLevels_no_tiles)
  have c: "calls (this_context ?s1) = calls (this_context s)"
          "canvas (this_context ?s1) = canvas (this_context s)" by simp_all
  show "\<exists>s'. renderFrame E frameState layerState s = Inr (canvas (this_context s'), s') \<and>
            renderedTiles s' = [] \<and> usedTiles s' = usedTiles s \<and> tiles s' = tiles s \<and>
            calls (this_context s') =
              calls (this_context s) @
              (let (width, height) = canvasSize E frameState
               in if \<not> js_eq (canvas_width (canvas (this_context s))) width \<or>
                     \<not> js_eq (canvas_height (canvas (this_context s))) height
                  then [] else [ClearRect (Fin 0) (Fin 0) width height]) @
              (case layer_extent layerState of None \<Rightarrow> [] | Some le \<Rightarrow> [Save, ClipUnrotated le]) @
              [PreRender, PostRender] @
              (case layer_extent layerState of None \<Rightarrow> [] | Some le \<Rightarrow> [Restore]) \<and>
            renderedRevision s' = Some (getRevision (getSource (getLayer E))) \<and>
            renderedResolution s' = Some (frameTileResolution E frameState) \<and>
            this_renderedExtent s' = Some (frameCanvasExtent E frameState)"
    by (rule exI[of _ ?s'])
       (simp add: r finishFrame_frame prepareCanvas_frame finishFrame_calls prepareCanvas_calls c)
next
  assume "findersKeepEntries E"
  then show "\<exists>s'. renderFrame E frameState layerState s = Inr (canvas (this_context s'), s') \<and>
            renderedRevision s' = Some (getRevision (getSource (getLayer E))) \<and>
            renderedResolution s' = Some (frameTileResolution E frameState) \<and>
            this_renderedExtent s' = Some (frameCanvasExtent E frameState)"
    by (rule renderFrame_completes)
next
  show "\<forall>c s'. renderFrame E frameState layerState s = Inr (c, s') \<longrightarrow>
      c = canvas (this_context s') \<and>
      renderedRevision s' = Some (getRevision (getSource (getLayer E))) \<and>
      renderedResolution s' = Some (frameTileResolution E frameState) \<and>
      this_renderedExtent s' = Some (frameCanvasExtent E frameState)"
    using renderFrame_returns[of E frameState layerState s] by blast
qed

theorem renderFrame_degenerate_input_witness:
  "emptyRange (frameTileRange (demoEnv [((0, 0, 0), 0)] True (Fin 0) False 0 0)
      (demoFrame (Fin 256, Fin (- 256)) (Fin 0, Fin 0) (Fin 256, Fin (- 256), Fin 256, Fin (- 256)) (Fin 1000))
      demoLayerState) \<and>
   (\<exists>s'. renderFrame (demoEnv [((0, 0, 0), 0)] True (Fin 0) False 0 0)
            (demoFrame (Fin 256, Fin (- 256)) (Fin 0, Fin 0) (Fin 256, Fin (- 256), Fin 256, Fin (- 256)) (Fin 1000))
            demoLayerState (demoWorld (\<lambda>t. demoTile (0, 0, 0) LOADED None)) =
              Inr (canvas (this_context s'), s') \<and>
          renderedTiles s' = [] \<and> renderedRevision s' = Some 7) \<and>
   findersKeepEntries (demoEnv [((0, 0, 0), 0)] True (Fin 0) False 0 0) \<and>
   frame_size (demoFrame (Fin 100, Fin (- 100)) (Fin 0, Fin 0) (Fin 100, Fin (- 100), Fin 100, Fin (- 100)) (Fin 1000)) =
     (Fin 0, Fin 0) \<and>
   (\<exists>s'. renderFrame (demoEnv [((0, 0, 0), 0)] True (Fin 0) False 0 0)
            (demoFrame (Fin 100, Fin (- 100)) (Fin 0, Fin 0) (Fin 100, Fin (- 100), Fin 100, Fin (- 100)) (Fin 1000))
            demoLayerState (demoWorld (\<lambda>t. demoTile (0, 0, 0) LOADED None)) =
              Inr (canvas (this_context s'), s') \<and>
          renderedRevision s' = Some 7)"
proof -
  let ?E = "demoEnv [((0, 0, 0), 0)] True (Fin 0) False 0 0"
  let ?F = "demoFrame (Fin 256, Fin (- 256)) (Fin 0, Fin 0) (Fin 256, Fin (- 256), Fin 256, Fin (- 256)) (Fin 1000)"
  let ?G = "demoFrame (Fin 100, Fin (- 100)) (Fin 0, Fin 0) (Fin 100, Fin (- 100), Fin 100, Fin (- 100)) (Fin 1000)"
  let ?W = "demoWorld (\<lambda>t. demoTile (0, 0, 0) LOADED None)"
  have h: "emptyRange (frameTileRange ?E ?F demoLayerState)"
    by (simp add: emptyRange_def demo_frameTileRange demoFrame_def demo_range_corner)
  have k: "findersKeepEntries ?E" by (rule demo_findersKeepEntries)
  have rev: "getRevision (getSource (getLayer ?E)) = 7" by (simp add: demoEnv_def demoSource_def)
  have z: "frame_size ?G = (Fin 0, Fin 0)" by (simp add: demoFrame_def)
  from renderFrame_degenerate_input[of ?E ?F demoLayerState ?W] h rev
  have a: "\<exists>s'. renderFrame ?E ?F demoLayerState ?W = Inr (canvas (this_context s'), s') \<and>
            renderedTiles s' = [] \<and> renderedRevision s' = Some 7"
    by auto
  from renderFrame_degenerate_input[of ?E ?G demoLayerState ?W] k rev
  have b: "\<exists>s'. renderFrame ?E ?G demoLayerState ?W = Inr (canvas (this_context s'), s') \<and>
            renderedRevision s' = Some 7"
    by auto
  from h a k z b show ?thesis by blast
qed

text \<open>
  The claim as stated fails: a viewport of zero size over the inside of a loaded
  tile has that tile in its range, and \<open>renderFrame\<close> draws it and keeps it in
  \<open>renderedTiles\<close>.
\<close>

lemma demo_round_zero: "Math_round (js_mul (Fin 0) (Fin 1)) = Fin 0"
  by code_simp

lemma demo_canvasSize_zero:
  "canvasSize (demoEnv cache u p opq z0 mz) (demoFrame c (Fin 0, Fin 0) e now) = (Fin 0, Fin 0)"
  by (simp add: canvasSize_def frameTilePixelRatio_def Let_def truthy_def demo_round_zero
        demoEnv_def demoSource_def demoFrame_def)

theorem renderFrame_zero_size_counterexample:
  "frame_size (demoFrame (Fin 100, Fin (- 100)) (Fin 0, Fin 0) (Fin 100, Fin (- 100), Fin 100, Fin (- 100)) (Fin 1000)) =
     (Fin 0, Fin 0) \<and>
   canvasSize (demoEnv [((0, 0, 0), 0)] True (Fin 0) False 0 0)
     (demoFrame (Fin 100, Fin (- 100)) (Fin 0, Fin 0) (Fin 100, Fin (- 100), Fin 100, Fin (- 100)) (Fin 1000)) =
     (Fin 0, Fin 0) \<and>
   (\<exists>c s'. renderFrame (demoEnv [((0, 0, 0), 0)] True (Fin 0) False 0 0)
              (demoFrame (Fin 100, Fin (- 100)) (Fin 0, Fin 0) (Fin 100, Fin (- 100), Fin 100, Fin (- 100)) (Fin 1000))
              demoLayerState (demoWorld (\<lambda>t. demoTile (0, 0, 0) LOADED None)) = Inr (c, s') \<and>
            renderedTiles s' = [0])"
proof -
  let ?E = "demoEnv [((0, 0, 0), 0)] True (Fin 0) False 0 0"
  let ?F = "demoFrame (Fin 100, Fin (- 100)) (Fin 0, Fin 0) (Fin 100, Fin (- 100), Fin 100, Fin (- 100)) (Fin 1000)"
  let ?W = "demoWorld (\<lambda>t. demoTile (0, 0, 0) LOADED None)"
  have sel: "selectTiles ?E ?F (frameZ ?E ?F) (frameTileRange ?E ?F demoLayerState)
               (?W\<lparr>this_newTiles := False\<rparr>, [(frameZ ?E ?F, [])]) =
             Inr (?W\<lparr>this_newTiles := True\<rparr>, [(0, [((0, 0, 0), 0)])])"
    by (simp add: demo_frameZ demo_frameTileRange demoFrame_def demo_range_one selectTiles_single
          demo_select_loaded[unfolded demoFrame_def])
  have "concat (map (tilesAt [(0, [((0, 0, 0), 0)])])
          (Array_sort (zCompare (frameZ ?E ?F)) (Object_keys [(0, [((0, 0, 0), 0 :: nat)])]))) = [0]"
    by (simp add: demo_frameZ tilesAt_def Array_sort_def Object_keys_def)
  with renderFrame_Inr[OF sel] have "\<exists>c s'. renderFrame ?E ?F demoLayerState ?W = Inr (c, s') \<and>
            renderedTiles s' = [0]" by auto
  moreover have "frame_size ?F = (Fin 0, Fin 0)" by (simp add: demoFrame_def)
  ultimately show ?thesis using demo_canvasSize_zero by blast
qed

subsection \<open>The destination rectangles of adjacent tiles\<close>

text \<open>
  An origin as \<open>renderFrame\<close> computes it: the temporary transform of a canvas of
  1062 by 600 pixels at the scale 1.3, applied to the origin pixel \<open>(-252, 0)\<close>.
\<close>

lemma demo_seam_origin:
  "demoApply (demoCompose (js_div (Fin 1062) (Fin 2)) (js_div (Fin 600) (Fin 2))
                (lit (13 / 10)) (lit (13 / 10)) (Fin 0)
                (js_div (js_neg (Fin 1062)) (Fin 2)) (js_div (js_neg (Fin 600)) (Fin 2)))
     (Fin (- 252), Fin 0) =
   (lit (- 4869000000000001 / 10000000000000), Fin (- 90))"
  by code_simp

text \<open>
  Claim C1. The right edge of a tile, \<open>Math.round(floatX + dx)\<close>, should be the left
  edge \<open>Math.round(floatX')\<close> of the next tile of its row. In binary64 arithmetic the
  code does not keep this: \<open>floatX + dx\<close> and \<open>floatX'\<close> are two different sequences of
  rounded operations, and where their exact value is a half-integer they can round to
  different integers. With the scale 1.3 (\<open>dx = 256 * 1 * 1.3\<close>) and the origin
  \<open>(-486.9000000000001, -90)\<close>, the tile two columns right of the origin tile starts
  at 179 and is 332 wide, so it ends at 511, and the tile three columns right starts
  at 512.
\<close>

theorem destRect_seam_gap:
  "(let origin = (lit (- 4869000000000001 / 10000000000000), Fin (- 90));
        dx = js_mul (js_mul (Fin 256) (Fin 1)) (lit (13 / 10));
        dy = js_mul (js_mul (Fin 256) (Fin 1)) (lit (13 / 10));
        (x, y, w, h) = destRect origin (4, 0, 0) (4, 2, 0) dx dy;
        (x', y', w', h') = destRect origin (4, 0, 0) (4, 3, 0) dx dy
    in (x, w, js_add x w, x')) = (Fin 179, Fin 332, Fin 511, Fin 512)"
proof -
  have o: "lit (- 4869000000000001 / 10000000000000) = Fin (- 1070704423128269 / 2199023255552)"
    by code_simp
  have dx: "js_mul (js_mul (Fin 256) (Fin 1)) (lit (13 / 10)) = Fin (5854679515581645 / 17592186044416)"
    by code_simp
  show ?thesis
    unfolding o dx
    apply (simp only: destRect_def Let_def split_conv prod.case fst_conv snd_conv)
    apply code_simp
    done
qed


end
